theory Spec2Isabelle
  imports Main "HOL-Library.Word" "HOL-Library.AList"
begin

section \<open>JavaScript values reaching the handlers\<close>

text \<open>
  A JavaScript string is a sequence of UTF-16 code units; \<open>length\<close> counts them, as
  \<^verbatim>\<open>String.prototype.length\<close> and the schema's \<^verbatim>\<open>maxLength\<close> validator do.
  \<open>js\<close> embeds an ASCII literal of the source.
\<close>

type_synonym jsstring = "16 word list"

definition js :: "string \<Rightarrow> jsstring" where
  "js = map of_char"

text \<open>
  The values a JSON payload can hold in one field. \<open>JUndefined\<close> is an absent
  property, \<open>JNum\<close> a number (only whether it is zero matters to the handlers) and
  \<open>JObj\<close> any object or array.
\<close>

datatype jsval = JUndefined | JNull | JBool bool | JNum int | JStr jsstring | JObj

text \<open>ToBoolean, as applied by \<^verbatim>\<open>!x\<close> and \<^verbatim>\<open>x && y\<close>.\<close>

fun truthy :: "jsval \<Rightarrow> bool" where
  "truthy JUndefined = False"
| "truthy JNull = False"
| "truthy (JBool b) = b"
| "truthy (JNum n) = (n \<noteq> 0)"
| "truthy (JStr s) = (s \<noteq> [])"
| "truthy JObj = True"

text \<open>
  \<^verbatim>\<open>String.prototype.trim\<close> strips the ECMAScript WhiteSpace and LineTerminator code
  points from both ends: TAB, LF, VT, FF, CR, SP, NBSP, U+1680, U+2000..U+200A, U+2028,
  U+2029, U+202F, U+205F, U+3000 and U+FEFF.
\<close>

definition js_ws :: "16 word \<Rightarrow> bool" where
  "js_ws c = (c \<in> set [9, 10, 11, 12, 13, 32, 160, 5760, 8232, 8233, 8239, 8287, 12288, 65279]
               \<or> (8192 \<le> c \<and> c \<le> 8202))"

definition js_trim :: "jsstring \<Rightarrow> jsstring" where
  "js_trim s = rev (dropWhile js_ws (rev (dropWhile js_ws s)))"

section \<open>The store: userSchema and messageSchema\<close>

text \<open>
  \<^verbatim>\<open>userSchema\<close> (server.js 51-82). Dates are read off a clock of natural numbers.
  Documents are stored under the string form of their \<^verbatim>\<open>_id\<close>.
\<close>

record user =
  username :: jsstring
  email :: jsstring
  password :: jsstring
  isOnline :: bool
  lastSeen :: nat

text \<open>
  \<^verbatim>\<open>messageSchema\<close> (server.js 85-117). \<open>createdAt\<close> is the timestamp that
  \<^verbatim>\<open>timestamps: true\<close> assigns when the document is saved; it is \<open>None\<close> on a document
  that has not been saved.
\<close>

record message =
  sender :: jsstring
  receiver :: jsval
  content :: jsstring
  messageType :: jsstring
  delivered :: bool
  read :: bool
  createdAt :: "nat option"

text \<open>
  \<^verbatim>\<open>new Message(messageData)\<close> with the four fields both send paths pass: the
  \<^verbatim>\<open>trim: true\<close> setter is applied to \<open>content\<close>, the fields not given take their
  schema defaults (\<open>delivered\<close> and \<open>read\<close> are false).
\<close>

definition new_Message :: "jsstring \<Rightarrow> jsval \<Rightarrow> jsstring \<Rightarrow> jsstring \<Rightarrow> message" where
  "new_Message from to cnt mt =
     \<lparr>sender = from, receiver = to, content = js_trim cnt, messageType = mt,
      delivered = False, read = False, createdAt = None\<rparr>"

text \<open>
  The validators the schema declares, run by \<^verbatim>\<open>save()\<close>: \<open>receiver\<close> and \<open>content\<close>
  are required (an empty string fails \<^verbatim>\<open>required\<close>), \<open>content\<close> has
  \<^verbatim>\<open>maxLength: 1000\<close>, \<open>messageType\<close> is in the enum \<^verbatim>\<open>['text']\<close>.
\<close>

definition Message_validate :: "message \<Rightarrow> bool" where
  "Message_validate m =
     (receiver m \<noteq> JUndefined \<and> receiver m \<noteq> JNull
      \<and> content m \<noteq> [] \<and> length (content m) \<le> 1000
      \<and> messageType m = js ''text'')"

text \<open>
  A populated message, as \<^verbatim>\<open>populate('sender', 'username')\<close> and
  \<^verbatim>\<open>populate('receiver', 'username')\<close> leave it: the document with the user names
  looked up (\<open>None\<close> where no such user is stored).
\<close>

record populated =
  doc :: message
  sender_name :: "jsstring option"
  receiver_name :: "jsstring option"

definition lookup_name :: "(jsstring \<times> user) list \<Rightarrow> jsval \<Rightarrow> jsstring option" where
  "lookup_name us v = (case v of JStr i \<Rightarrow> map_option username (map_of us i) | _ \<Rightarrow> None)"

section \<open>Sockets, the connection registry and the effects of the server\<close>

type_synonym sid = nat

text \<open>
  The properties the handlers put on a socket object, and the rooms it joined. A room
  \<^verbatim>\<open>`user_${v}`\<close> is named by the value \<open>v\<close> of its template argument.
\<close>

record socket =
  userId :: "jsstring option"
  sock_username :: "jsstring option"
  rooms :: "jsval list"

text \<open>An entry of the \<^verbatim>\<open>connectedUsers\<close> Map (server.js 353, 377-380).\<close>

record entry =
  socketId :: sid
  entry_username :: jsstring

datatype target =
    ToSocket sid         \<comment> \<open>\<^verbatim>\<open>socket.emit\<close>\<close>
  | ToRoom jsval         \<comment> \<open>\<^verbatim>\<open>io.to(`user_${v}`).emit\<close>\<close>
  | BroadcastFrom sid    \<comment> \<open>\<^verbatim>\<open>socket.broadcast.emit\<close>: every socket but this one\<close>

datatype event_out =
    Authenticated jsstring jsstring jsstring
  | AuthenticationError string
  | ErrorEv string
  | ReceiveMessage populated
  | MessageSent populated
  | UserOnline jsstring jsstring
  | UserOffline jsstring "jsstring option"
  | UserTyping jsstring "jsstring option" bool

text \<open>
  What the server does to the outside, in the order it does it: events emitted, store
  writes, HTTP responses, closing the database, exiting.
\<close>

datatype effect =
    Emit target event_out
  | UserSaved jsstring user
  | MessageSaved message
  | PresenceUpdated jsstring bool nat
  | HttpResponse nat string
  | DbClosed
  | ProcessExit nat

text \<open>
  The state of the server between two handler runs: the two collections of the store,
  the \<^verbatim>\<open>connectedUsers\<close> Map (insertion-ordered, hence an association list), the open
  sockets, the effects so far, the clock read by \<^verbatim>\<open>new Date()\<close>, and whether the
  process has exited. Every handler is run to completion before the next one starts.
\<close>

record state =
  users :: "(jsstring \<times> user) list"
  messages :: "message list"
  connectedUsers :: "(jsstring \<times> entry) list"
  sockets :: "(sid \<times> socket) list"
  trace :: "effect list"
  clock :: nat
  exited :: bool

definition emit :: "target \<Rightarrow> event_out \<Rightarrow> state \<Rightarrow> state" where
  "emit t e s = s\<lparr>trace := trace s @ [Emit t e]\<rparr>"

text \<open>
  The process ends with an exit code: what it held in memory, the registry and the
  sockets, is gone; the store stays as it is.
\<close>

definition process_ends :: "nat \<Rightarrow> state \<Rightarrow> state" where
  "process_ends code s =
     s\<lparr>connectedUsers := [], sockets := [], trace := trace s @ [ProcessExit code],
       exited := True\<rparr>"

text \<open>
  ToBoolean of a property that is unset or holds a string, as in
  \<^verbatim>\<open>if (socket.userId)\<close>: set and not the empty string.
\<close>

fun truthy_str :: "jsstring option \<Rightarrow> bool" where
  "truthy_str None = False"
| "truthy_str (Some i) = (i \<noteq> [])"

text \<open>\<^verbatim>\<open>io.on('connection', ...)\<close>: a fresh socket object, no property set.\<close>

definition connection :: "sid \<Rightarrow> state \<Rightarrow> state" where
  "connection c s =
     s\<lparr>sockets := AList.update c \<lparr>userId = None, sock_username = None, rooms = []\<rparr> (sockets s)\<rparr>"

section \<open>The authenticate handler (server.js 359-404)\<close>

text \<open>
  \<^verbatim>\<open>jwt.verify(token, JWT_SECRET)\<close> belongs to a library: it is a parameter of the
  handler. It throws for an expired and for a malformed token, and returns the
  \<^verbatim>\<open>userId\<close> of the payload otherwise, which \<^verbatim>\<open>generateToken\<close> took from the
  \<^verbatim>\<open>_id\<close> of a user; \<^verbatim>\<open>user._id.toString()\<close> of the user found under it is that same
  string.
\<close>

datatype jwt_result = JwtExpired | JwtMalformed | JwtOk jsstring

text \<open>
  The store calls of the handler that can reject: \<^verbatim>\<open>User.findById\<close> and
  \<^verbatim>\<open>user.save()\<close>. \<open>False\<close> is a rejected promise, thrown at the \<^verbatim>\<open>await\<close>.
\<close>

record auth_io =
  au_find_ok :: bool
  au_save_ok :: bool

definition authenticate ::
  "(jsval \<Rightarrow> jwt_result) \<Rightarrow> auth_io \<Rightarrow> sid \<Rightarrow> jsval \<Rightarrow> state \<Rightarrow> state" where
  "authenticate jwt_verify io c token s =
     (case map_of (sockets s) c of
        None \<Rightarrow> s
      | Some sock \<Rightarrow>
         (case jwt_verify token of
            JwtOk decoded \<Rightarrow>
              if \<not> au_find_ok io
              then emit (ToSocket c) (AuthenticationError ''Invalid token'') s
              else
                (case map_of (users s) decoded of
                   None \<Rightarrow> emit (ToSocket c) (AuthenticationError ''User not found'') s
                 | Some u \<Rightarrow>
                    let sock' = sock\<lparr>userId := Some decoded,
                                     sock_username := Some (username u),
                                     rooms := List.insert (JStr decoded) (rooms sock)\<rparr>;
                        s1 = s\<lparr>sockets := AList.update c sock' (sockets s)\<rparr>
                    in if \<not> au_save_ok io
                       then emit (ToSocket c) (AuthenticationError ''Invalid token'') s1
                       else
                         let u' = u\<lparr>isOnline := True, lastSeen := clock s1\<rparr>;
                             s2 = s1\<lparr>users := AList.update decoded u' (users s1),
                                     trace := trace s1 @ [UserSaved decoded u']\<rparr>;
                             s3 = s2\<lparr>connectedUsers :=
                                       AList.update decoded
                                         \<lparr>socketId = c, entry_username = username u\<rparr>
                                         (connectedUsers s2)\<rparr>;
                             s4 = emit (ToSocket c)
                                    (Authenticated decoded (username u) (email u)) s3
                         in emit (BroadcastFrom c) (UserOnline decoded (username u)) s4)
          | _ \<Rightarrow> emit (ToSocket c) (AuthenticationError ''Invalid token'') s))"

text \<open>
  The handler is suspended at each \<^verbatim>\<open>await\<close>, and other handlers run meanwhile. While
  it waits at \<^verbatim>\<open>await user.save()\<close> (line 374) and the store has applied the write,
  they see the state \<open>authenticate_saved\<close>: the socket is marked and the user is stored
  online, but lines 376-396, which \<open>authenticate_resumed\<close> runs, have not written the
  registry yet. \<open>None\<close> means that the handler does not get that far.
\<close>

definition authenticate_saved ::
  "(jsval \<Rightarrow> jwt_result) \<Rightarrow> auth_io \<Rightarrow> sid \<Rightarrow> jsval \<Rightarrow> state \<Rightarrow> state option" where
  "authenticate_saved jwt_verify io c token s =
     (case map_of (sockets s) c of
        None \<Rightarrow> None
      | Some sock \<Rightarrow>
         (case jwt_verify token of
            JwtOk decoded \<Rightarrow>
              if \<not> au_find_ok io \<or> \<not> au_save_ok io then None
              else
                (case map_of (users s) decoded of
                   None \<Rightarrow> None
                 | Some u \<Rightarrow>
                    let sock' = sock\<lparr>userId := Some decoded,
                                     sock_username := Some (username u),
                                     rooms := List.insert (JStr decoded) (rooms sock)\<rparr>;
                        u' = u\<lparr>isOnline := True, lastSeen := clock s\<rparr>
                    in Some (s\<lparr>sockets := AList.update c sock' (sockets s),
                               users := AList.update decoded u' (users s),
                               trace := trace s @ [UserSaved decoded u']\<rparr>))
          | _ \<Rightarrow> None))"

definition authenticate_resumed :: "sid \<Rightarrow> jsstring \<Rightarrow> user \<Rightarrow> state \<Rightarrow> state" where
  "authenticate_resumed c decoded u s2 =
     (let s3 = s2\<lparr>connectedUsers :=
                   AList.update decoded \<lparr>socketId = c, entry_username = username u\<rparr>
                     (connectedUsers s2)\<rparr>;
          s4 = emit (ToSocket c) (Authenticated decoded (username u) (email u)) s3
      in emit (BroadcastFrom c) (UserOnline decoded (username u)) s4)"

section \<open>The send-message handler (server.js 407-453)\<close>

text \<open>
  The payload \<open>data\<close>: \<open>None\<close> when the client sent \<^verbatim>\<open>null\<close> or nothing (destructuring
  it throws), else the values of the three properties the handler reads.
\<close>

record payload =
  p_receiverId :: jsval
  p_content :: jsval
  p_messageType :: jsval

text \<open>
  The store calls of the handler that can reject: \<^verbatim>\<open>message.save()\<close> (the store is
  unreachable, or \<open>receiver\<close> does not cast to an ObjectId) and the two
  \<^verbatim>\<open>populate\<close> calls.
\<close>

record send_io =
  sm_save_ok :: bool
  sm_populate_ok :: bool

text \<open>
  \<^verbatim>\<open>await message.save()\<close>: validation, then the insert with \<open>createdAt\<close> taken from the
  server's clock. \<open>None\<close> is a rejected promise.
\<close>

definition Message_save :: "bool \<Rightarrow> message \<Rightarrow> state \<Rightarrow> (message \<times> state) option" where
  "Message_save store_ok m s =
     (if Message_validate m \<and> store_ok
      then let m' = m\<lparr>createdAt := Some (clock s)\<rparr>
           in Some (m', s\<lparr>messages := messages s @ [m'], trace := trace s @ [MessageSaved m']\<rparr>)
      else None)"

definition populate :: "message \<Rightarrow> state \<Rightarrow> populated" where
  "populate m s =
     \<lparr>doc = m, sender_name = lookup_name (users s) (JStr (sender m)),
      receiver_name = lookup_name (users s) (receiver m)\<rparr>"

text \<open>
  The document \<^verbatim>\<open>save()\<close> stores for the sender \<open>uid\<close>, the receiver \<open>rid\<close> and the
  content \<open>t\<close> at the time \<open>now\<close>: what \<open>Message_save\<close> makes of the handler's
  \<^verbatim>\<open>new Message(messageData)\<close>.
\<close>

definition saved_doc :: "jsstring \<Rightarrow> jsval \<Rightarrow> jsstring \<Rightarrow> nat \<Rightarrow> message" where
  "saved_doc uid rid t now =
     (new_Message uid rid (js_trim t) (js ''text''))\<lparr>createdAt := Some now\<rparr>"

text \<open>The \<^verbatim>\<open>catch\<close> block of the handler (server.js 449-452).\<close>

definition send_failed :: "sid \<Rightarrow> state \<Rightarrow> state" where
  "send_failed c s = emit (ToSocket c) (ErrorEv ''Failed to send message'') s"

definition send_message :: "send_io \<Rightarrow> sid \<Rightarrow> payload option \<Rightarrow> state \<Rightarrow> state" where
  "send_message io c data s =
     (case map_of (sockets s) c of
        None \<Rightarrow> s
      | Some sock \<Rightarrow>
         if \<not> truthy_str (userId sock)
         then emit (ToSocket c) (ErrorEv ''Not authenticated'') s
         else
           (case data of
              None \<Rightarrow> send_failed c s
            | Some d \<Rightarrow>
               let receiverId = p_receiverId d;
                   cnt = p_content d;
                   mt = (if p_messageType d = JUndefined then JStr (js ''text'')
                         else p_messageType d)
               in if \<not> truthy receiverId \<or> \<not> truthy cnt
                  then emit (ToSocket c) (ErrorEv ''Invalid message data'') s
                  else
                    (case cnt of
                       JStr text \<Rightarrow>
                         if js_trim text = []
                         then emit (ToSocket c) (ErrorEv ''Invalid message data'') s
                         else if mt \<noteq> JStr (js ''text'')
                         then emit (ToSocket c) (ErrorEv ''Only text messages allowed'') s
                         else
                           (case Message_save (sm_save_ok io)
                                   (new_Message (the (userId sock)) receiverId
                                      (js_trim text) (js ''text'')) s of
                              None \<Rightarrow> send_failed c s
                            | Some (m, s1) \<Rightarrow>
                               if \<not> sm_populate_ok io then send_failed c s1
                               else
                                 let v = populate m s1;
                                     s2 = emit (ToRoom receiverId) (ReceiveMessage v) s1
                                 in emit (ToSocket c) (MessageSent v) s2)
                     | _ \<Rightarrow> send_failed c s)))"

section \<open>The typing relays (server.js 456-474)\<close>

text \<open>
  \<^verbatim>\<open>if (socket.userId && data.receiverId)\<close>: on a socket with a \<^verbatim>\<open>userId\<close>, reading
  \<^verbatim>\<open>data.receiverId\<close> of a payload that is \<^verbatim>\<open>null\<close> or missing throws a TypeError.
  These two listeners have no \<^verbatim>\<open>try\<close>: the exception is uncaught and Node ends the
  process with exit code 1.
\<close>

definition typing :: "bool \<Rightarrow> sid \<Rightarrow> payload option \<Rightarrow> state \<Rightarrow> state" where
  "typing is_typing c data s =
     (case map_of (sockets s) c of
        None \<Rightarrow> s
      | Some sock \<Rightarrow>
         if \<not> truthy_str (userId sock) then s
         else
           (case data of
              None \<Rightarrow> process_ends 1 s
            | Some d \<Rightarrow>
               if truthy (p_receiverId d)
               then emit (ToRoom (p_receiverId d))
                      (UserTyping (the (userId sock)) (sock_username sock) is_typing) s
               else s))"

section \<open>The disconnect handler (server.js 477-502)\<close>

record disc_io =
  dc_find_ok :: bool
  dc_save_ok :: bool

text \<open>Lines 490-497: the registry entry of the user is deleted, then the broadcast.\<close>

definition evict_and_broadcast :: "sid \<Rightarrow> socket \<Rightarrow> jsstring \<Rightarrow> state \<Rightarrow> state" where
  "evict_and_broadcast c sock uid s =
     emit (BroadcastFrom c) (UserOffline uid (sock_username sock))
       (s\<lparr>connectedUsers := AList.delete uid (connectedUsers s)\<rparr>)"

definition disconnect :: "disc_io \<Rightarrow> sid \<Rightarrow> state \<Rightarrow> state" where
  "disconnect io c s =
     (case map_of (sockets s) c of
        None \<Rightarrow> s
      | Some sock \<Rightarrow>
         if \<not> truthy_str (userId sock) then s
         else
           let uid = the (userId sock)
           in if \<not> dc_find_ok io then s
              else
                (case map_of (users s) uid of
                   None \<Rightarrow> evict_and_broadcast c sock uid s
                 | Some u \<Rightarrow>
                    if \<not> dc_save_ok io then s
                    else
                      let u' = u\<lparr>isOnline := False, lastSeen := clock s\<rparr>
                      in evict_and_broadcast c sock uid
                           (s\<lparr>users := AList.update uid u' (users s),
                              trace := trace s @ [UserSaved uid u']\<rparr>)))"

section \<open>The SIGINT handler (server.js 521-541)\<close>

text \<open>
  \<^verbatim>\<open>User.findByIdAndUpdate(userId, {isOnline: false, lastSeen: new Date()})\<close>: nothing
  happens when no such user is stored.
\<close>

definition findByIdAndUpdate_offline :: "jsstring \<Rightarrow> state \<Rightarrow> state" where
  "findByIdAndUpdate_offline uid s =
     (case map_of (users s) uid of
        None \<Rightarrow> s
      | Some u \<Rightarrow>
         s\<lparr>users := AList.update uid (u\<lparr>isOnline := False, lastSeen := clock s\<rparr>) (users s),
           trace := trace s @ [PresenceUpdated uid False (clock s)]\<rparr>)"

text \<open>
  The \<^verbatim>\<open>for\<close> loop over the keys of \<^verbatim>\<open>connectedUsers\<close>; \<open>ok uid\<close> tells whether the
  update of \<open>uid\<close> resolves, a rejected one being caught and logged inside the loop.
\<close>

fun sweep :: "(jsstring \<Rightarrow> bool) \<Rightarrow> jsstring list \<Rightarrow> state \<Rightarrow> state" where
  "sweep ok [] s = s"
| "sweep ok (uid # uids) s =
     sweep ok uids (if ok uid then findByIdAndUpdate_offline uid s else s)"

record sigint_io =
  sg_update_ok :: "jsstring \<Rightarrow> bool"
  sg_close_ok :: bool

text \<open>
  After the loop, \<^verbatim>\<open>await mongoose.connection.close()\<close> and \<^verbatim>\<open>process.exit(0)\<close>.
  Nothing catches a rejected \<^verbatim>\<open>close()\<close>: the rejection of the listener is unhandled,
  and Node (15 and later) ends the process with exit code 1.
\<close>

definition sigint :: "sigint_io \<Rightarrow> state \<Rightarrow> state" where
  "sigint io s =
     (let s1 = sweep (sg_update_ok io) (map fst (connectedUsers s)) s
      in if \<not> sg_close_ok io then process_ends 1 s1
         else process_ends 0 (s1\<lparr>trace := trace s1 @ [DbClosed]\<rparr>))"

text \<open>
  \<^verbatim>\<open>process.on\<close> registers a listener for SIGINT only. On SIGTERM Node takes its
  default action: the process ends at once, with exit code 143 (128 + 15).
\<close>

definition sigterm :: "state \<Rightarrow> state" where
  "sigterm s = process_ends 143 s"

section \<open>POST /api/auth/login (server.js 207-251)\<close>

text \<open>
  The two body fields are strings or absent. \<open>lg_password_valid\<close> is the result of
  \<^verbatim>\<open>bcrypt.compare\<close>; the other fields tell whether the store calls resolve.
  \<^verbatim>\<open>String.prototype.toLowerCase\<close> is a parameter, \<open>lower\<close>.
\<close>

record login_io =
  lg_find_ok :: bool
  lg_password_valid :: bool
  lg_save_ok :: bool

definition respond :: "nat \<Rightarrow> string \<Rightarrow> state \<Rightarrow> state" where
  "respond code body s = s\<lparr>trace := trace s @ [HttpResponse code body]\<rparr>"

text \<open>
  \<^verbatim>\<open>User.findOne({$or: [{username}, {email: username}]})\<close>. The store casts each
  value of the filter with the setters of its schema path: \<^verbatim>\<open>trim\<close> for \<open>username\<close>,
  \<^verbatim>\<open>trim\<close> and \<^verbatim>\<open>lowercase\<close> for \<open>email\<close> (lines 52-66).
\<close>

definition findOne_by_name ::
  "(jsstring \<Rightarrow> jsstring) \<Rightarrow> jsstring \<Rightarrow> (jsstring \<times> user) list
     \<Rightarrow> (jsstring \<times> user) option" where
  "findOne_by_name lower name us =
     find (\<lambda>(i, u). username u = js_trim name \<or> email u = js_trim (lower name)) us"

definition login ::
  "(jsstring \<Rightarrow> jsstring) \<Rightarrow> login_io \<Rightarrow> jsstring option \<Rightarrow> jsstring option
     \<Rightarrow> state \<Rightarrow> state" where
  "login lower io uname pw s =
     (if \<not> truthy_str uname \<or> \<not> truthy_str pw
      then respond 400 ''Username and password required'' s
      else if \<not> lg_find_ok io then respond 500 ''Server error'' s
      else
        (case findOne_by_name lower (the uname) (users s) of
           None \<Rightarrow> respond 400 ''Invalid credentials'' s
         | Some (uid, u) \<Rightarrow>
            if \<not> lg_password_valid io then respond 400 ''Invalid credentials'' s
            else if \<not> lg_save_ok io then respond 500 ''Server error'' s
            else
              let u' = u\<lparr>isOnline := True, lastSeen := clock s\<rparr>
              in respond 200 ''Login successful''
                   (s\<lparr>users := AList.update uid u' (users s),
                      trace := trace s @ [UserSaved uid u']\<rparr>)))"

section \<open>Runs of the server\<close>

datatype event =
    Connect sid
  | Authenticate auth_io sid jsval
  | SendMessage send_io sid "payload option"
  | Typing sid "payload option"
  | StopTyping sid "payload option"
  | Disconnect disc_io sid
  | Login login_io "jsstring option" "jsstring option"
  | Sigint sigint_io
  | Sigterm
  | Tick

text \<open>The library functions the handlers call.\<close>

record lib =
  lib_jwt_verify :: "jsval \<Rightarrow> jwt_result"
  lib_toLowerCase :: "jsstring \<Rightarrow> jsstring"

text \<open>
  One event, handled to completion. A socket id is used once; after its disconnect
  handler has run the socket is gone. Nothing runs after the process has exited.
\<close>

fun handle :: "lib \<Rightarrow> event \<Rightarrow> state \<Rightarrow> state" where
  "handle l (Connect c) s = (if map_of (sockets s) c = None then connection c s else s)"
| "handle l (Authenticate io c token) s = authenticate (lib_jwt_verify l) io c token s"
| "handle l (SendMessage io c data) s = send_message io c data s"
| "handle l (Typing c data) s = typing True c data s"
| "handle l (StopTyping c data) s = typing False c data s"
| "handle l (Disconnect io c) s =
     (let s1 = disconnect io c s in s1\<lparr>sockets := AList.delete c (sockets s1)\<rparr>)"
| "handle l (Login io uname pw) s = login (lib_toLowerCase l) io uname pw s"
| "handle l (Sigint io) s = sigint io s"
| "handle l Sigterm s = sigterm s"
| "handle l Tick s = s\<lparr>clock := Suc (clock s)\<rparr>"

definition step :: "lib \<Rightarrow> event \<Rightarrow> state \<Rightarrow> state" where
  "step l e s = (if exited s then s else handle l e s)"

fun run :: "lib \<Rightarrow> event list \<Rightarrow> state \<Rightarrow> state" where
  "run l [] s = s"
| "run l (e # es) s = run l es (step l e s)"

section \<open>Scenarios\<close>

text \<open>
  Two registered users, both offline, and a token verifier: the token \<open>tok:\<close>\<open>i\<close>
  carries the user id \<open>i\<close>, the token \<open>expired\<close> has expired, anything else is
  malformed.
\<close>

definition u1 :: jsstring where "u1 = js ''u1''"
definition u2 :: jsstring where "u2 = js ''u2''"

definition alice :: user where
  "alice = \<lparr>username = js ''alice'', email = js ''alice@example.org'',
            password = js ''hashA'', isOnline = False, lastSeen = 0\<rparr>"

definition bob :: user where
  "bob = \<lparr>username = js ''bob'', email = js ''bob@example.org'',
          password = js ''hashB'', isOnline = False, lastSeen = 0\<rparr>"

definition s0 :: state where
  "s0 = \<lparr>users = [(u1, alice), (u2, bob)], messages = [], connectedUsers = [],
         sockets = [], trace = [], clock = 100, exited = False\<rparr>"

definition jv0 :: "jsval \<Rightarrow> jwt_result" where
  "jv0 token =
     (case token of
        JStr t \<Rightarrow>
          if t = js ''expired'' then JwtExpired
          else if take 4 t = js ''tok:'' then JwtOk (drop 4 t)
          else JwtMalformed
      | _ \<Rightarrow> JwtMalformed)"

text \<open>Lower case for the letters A to Z, all that the scenarios need.\<close>

definition ascii_lower :: "jsstring \<Rightarrow> jsstring" where
  "ascii_lower = map (\<lambda>c. if 65 \<le> c \<and> c \<le> 90 then c + 32 else c)"

definition lib0 :: lib where
  "lib0 = \<lparr>lib_jwt_verify = jv0, lib_toLowerCase = ascii_lower\<rparr>"

definition auth_ok :: auth_io where
  "auth_ok = \<lparr>au_find_ok = True, au_save_ok = True\<rparr>"

definition send_ok :: send_io where
  "send_ok = \<lparr>sm_save_ok = True, sm_populate_ok = True\<rparr>"

definition disc_ok :: disc_io where
  "disc_ok = \<lparr>dc_find_ok = True, dc_save_ok = True\<rparr>"

text \<open>Socket 7 has authenticated as \<open>u1\<close>.\<close>

definition s_one :: state where
  "s_one = run lib0 [Connect 7, Authenticate auth_ok 7 (JStr (js ''tok:u1''))] s0"

text \<open>Socket 7 has authenticated as \<open>u1\<close> and socket 8 as \<open>u2\<close>.\<close>

definition s_ab :: state where
  "s_ab = run lib0 [Connect 7, Connect 8, Authenticate auth_ok 7 (JStr (js ''tok:u1'')),
                   Authenticate auth_ok 8 (JStr (js ''tok:u2''))] s0"

text \<open>Sockets 7 and 8 have both authenticated as \<open>u1\<close>, socket 7 first.\<close>

definition s_twice :: state where
  "s_twice = run lib0 [Connect 7, Connect 8, Authenticate auth_ok 7 (JStr (js ''tok:u1'')),
                      Authenticate auth_ok 8 (JStr (js ''tok:u1''))] s0"

definition hello :: payload where
  "hello = \<lparr>p_receiverId = JStr u2, p_content = JStr (js ''hello''),
            p_messageType = JUndefined\<rparr>"

definition hello_saved :: message where
  "hello_saved = \<lparr>sender = u1, receiver = JStr u2, content = js ''hello'',
                  messageType = js ''text'', delivered = False, read = False,
                  createdAt = Some 100\<rparr>"

definition hello_view :: populated where
  "hello_view = \<lparr>doc = hello_saved, sender_name = Some (js ''alice''),
                 receiver_name = Some (js ''bob'')\<rparr>"

text \<open>A socket that has connected and sent nothing yet.\<close>

definition s_conn :: state where
  "s_conn = run lib0 [Connect 7] s0"

text \<open>After \<open>s_twice\<close>, socket 7 has disconnected; socket 8 stays open.\<close>

definition s_orphan :: state where
  "s_orphan = run lib0 [Connect 7, Connect 8, Authenticate auth_ok 7 (JStr (js ''tok:u1'')),
                       Authenticate auth_ok 8 (JStr (js ''tok:u1'')), Disconnect disc_ok 7] s0"

text \<open>
  Socket 8 has authenticated as \<open>u1\<close>; then socket 7 presented a valid token of \<open>u1\<close> as
  well, but the store rejected \<^verbatim>\<open>user.save()\<close>.
\<close>

definition save_fails :: auth_io where
  "save_fails = \<lparr>au_find_ok = True, au_save_ok = False\<rparr>"

definition s_half :: state where
  "s_half = run lib0 [Connect 7, Connect 8, Authenticate auth_ok 8 (JStr (js ''tok:u1'')),
                     Authenticate save_fails 7 (JStr (js ''tok:u1''))] s0"

definition image :: payload where
  "image = \<lparr>p_receiverId = JStr u2, p_content = JStr (js ''hi''),
            p_messageType = JStr (js ''image'')\<rparr>"

definition blank :: payload where
  "blank = \<lparr>p_receiverId = JStr u2, p_content = JStr (js ''   ''),
            p_messageType = JUndefined\<rparr>"

definition empty_content :: payload where
  "empty_content = \<lparr>p_receiverId = JStr u2, p_content = JStr [],
                    p_messageType = JUndefined\<rparr>"

definition too_long :: payload where
  "too_long = \<lparr>p_receiverId = JStr u2, p_content = JStr (replicate 1001 97),
               p_messageType = JUndefined\<rparr>"

text \<open>The letter \<open>a\<close> followed by 1000 spaces, and what is stored of it.\<close>

definition padded :: payload where
  "padded = \<lparr>p_receiverId = JStr u2, p_content = JStr (97 # replicate 1000 32),
             p_messageType = JUndefined\<rparr>"

definition padded_saved :: message where
  "padded_saved = \<lparr>sender = u1, receiver = JStr u2, content = [97],
                   messageType = js ''text'', delivered = False, read = False,
                   createdAt = Some 100\<rparr>"

definition padded_view :: populated where
  "padded_view = \<lparr>doc = padded_saved, sender_name = Some (js ''alice''),
                  receiver_name = Some (js ''bob'')\<rparr>"

definition no_receiver :: payload where
  "no_receiver = \<lparr>p_receiverId = JUndefined, p_content = JStr (js ''hello''),
                  p_messageType = JUndefined\<rparr>"

definition store_down :: send_io where
  "store_down = \<lparr>sm_save_ok = False, sm_populate_ok = True\<rparr>"


definition sweep_all_ok :: sigint_io where
  "sweep_all_ok = \<lparr>sg_update_ok = (\<lambda>uid. True), sg_close_ok = True\<rparr>"

text \<open>Every update is accepted, but closing the database connection is rejected.\<close>

definition sweep_close_fails :: sigint_io where
  "sweep_close_fails = \<lparr>sg_update_ok = (\<lambda>uid. True), sg_close_ok = False\<rparr>"

text \<open>The store rejects the update of \<open>u1\<close>, and no other.\<close>

definition sweep_u1_fails :: sigint_io where
  "sweep_u1_fails = \<lparr>sg_update_ok = (\<lambda>uid. uid \<noteq> u1), sg_close_ok = True\<rparr>"






text \<open>SIGTERM arrives while \<open>u1\<close> and \<open>u2\<close> are connected.\<close>

definition s_term :: state where
  "s_term = step lib0 Sigterm s_ab"

text \<open>What the store holds for a user once a handler has set it offline at time \<open>t\<close>.\<close>

definition offline_at :: "nat \<Rightarrow> user \<Rightarrow> user" where
  "offline_at t u = u\<lparr>isOnline := False, lastSeen := t\<rparr>"

section \<open>Properties stated by the specification\<close>

text \<open>
  The presence invariant of the data model: a stored user with \<open>isOnline\<close> true has an
  entry in the connection registry.
\<close>

definition presence_inv :: "state \<Rightarrow> bool" where
  "presence_inv s =
     list_all (\<lambda>uid. case map_of (users s) uid of
                       None \<Rightarrow> True
                     | Some u \<Rightarrow> isOnline u \<longrightarrow> map_of (connectedUsers s) uid \<noteq> None)
       (map fst (users s))"




text \<open>
  The eviction the specification describes (section 4.1), to be compared with what the
  disconnect handler does: \<open>evict(connectionHandle)\<close> removes the entry whose handle
  matches, and nothing else.
\<close>

definition spec_evict :: "sid \<Rightarrow> (jsstring \<times> entry) list \<Rightarrow> (jsstring \<times> entry) list" where
  "spec_evict h reg = filter (\<lambda>(uid, e). socketId e \<noteq> h) reg"

section \<open>Trimming\<close>

lemma js_trim_Nil [simp]: "js_trim [] = []"
  by (simp add: js_trim_def)

lemma js_trim_nonempty: "js_trim t \<noteq> [] \<Longrightarrow> t \<noteq> []"
  by (cases t) simp_all

lemma dropWhile_unchanged: "xs = [] \<or> \<not> P (hd xs) \<Longrightarrow> dropWhile P xs = xs"
  by (cases xs) auto

text \<open>Trimming a trimmed string changes nothing: neither end starts with white space.\<close>

lemma trim_idem_gen:
  "rev (dropWhile P (rev (dropWhile P (rev (dropWhile P (rev (dropWhile P s))))))) =
   rev (dropWhile P (rev (dropWhile P s)))"
proof -
  define a where "a = dropWhile P s"
  define b where "b = dropWhile P (rev a)"
  have b_hd: "b = [] \<or> \<not> P (hd b)"
    unfolding b_def using hd_dropWhile [of P "rev a"] by blast
  have a_hd: "a = [] \<or> \<not> P (hd a)"
    unfolding a_def using hd_dropWhile [of P s] by blast
  have "rev b = [] \<or> \<not> P (hd (rev b))"
  proof (cases "b = []")
    case True
    then show ?thesis by simp
  next
    case False
    then have ne: "rev a \<noteq> []" unfolding b_def by auto
    obtain ys where "rev a = ys @ b"
      unfolding b_def using takeWhile_dropWhile_id [of P "rev a"] by metis
    with False have "last b = last (rev a)" by simp
    also have "\<dots> = hd a" using ne by (simp add: last_rev)
    finally have "hd (rev b) = hd a" using False by (simp add: hd_rev)
    moreover have "\<not> P (hd a)" using a_hd ne by auto
    ultimately show ?thesis by simp
  qed
  then have "dropWhile P (rev b) = rev b" by (rule dropWhile_unchanged)
  moreover have "dropWhile P b = b" using b_hd by (rule dropWhile_unchanged)
  ultimately show ?thesis unfolding a_def b_def by simp
qed

lemma js_trim_idem: "js_trim (js_trim t) = js_trim t"
  unfolding js_trim_def by (rule trim_idem_gen)

lemma truthy_defined: "truthy v \<Longrightarrow> v \<noteq> JUndefined \<and> v \<noteq> JNull"
  by (cases v) simp_all

section \<open>The branches of the send-message handler\<close>

lemma send_unauthenticated:
  "map_of (sockets s) c = Some sock \<Longrightarrow> \<not> truthy_str (userId sock) \<Longrightarrow>
   send_message io c data s = emit (ToSocket c) (ErrorEv ''Not authenticated'') s"
  by (simp add: send_message_def)

lemma send_no_data:
  "map_of (sockets s) c = Some sock \<Longrightarrow> truthy_str (userId sock) \<Longrightarrow>
   send_message io c None s = send_failed c s"
  by (simp add: send_message_def)

lemma send_falsy_field:
  "map_of (sockets s) c = Some sock \<Longrightarrow> truthy_str (userId sock) \<Longrightarrow>
   \<not> truthy (p_receiverId d) \<or> \<not> truthy (p_content d) \<Longrightarrow>
   send_message io c (Some d) s = emit (ToSocket c) (ErrorEv ''Invalid message data'') s"
  by (simp add: send_message_def Let_def)

lemma send_content_not_string:
  "map_of (sockets s) c = Some sock \<Longrightarrow> truthy_str (userId sock) \<Longrightarrow>
   truthy (p_receiverId d) \<Longrightarrow> truthy (p_content d) \<Longrightarrow> \<forall>t. p_content d \<noteq> JStr t \<Longrightarrow>
   send_message io c (Some d) s = send_failed c s"
  by (cases "p_content d") (simp_all add: send_message_def Let_def)

lemma send_blank:
  "map_of (sockets s) c = Some sock \<Longrightarrow> truthy_str (userId sock) \<Longrightarrow>
   truthy (p_receiverId d) \<Longrightarrow> p_content d = JStr t \<Longrightarrow> js_trim t = [] \<Longrightarrow>
   send_message io c (Some d) s = emit (ToSocket c) (ErrorEv ''Invalid message data'') s"
  by (simp add: send_message_def Let_def)

lemma send_not_text:
  "map_of (sockets s) c = Some sock \<Longrightarrow> truthy_str (userId sock) \<Longrightarrow>
   truthy (p_receiverId d) \<Longrightarrow> p_content d = JStr t \<Longrightarrow> js_trim t \<noteq> [] \<Longrightarrow>
   p_messageType d \<noteq> JUndefined \<Longrightarrow> p_messageType d \<noteq> JStr (js ''text'') \<Longrightarrow>
   send_message io c (Some d) s = emit (ToSocket c) (ErrorEv ''Only text messages allowed'') s"
  by (simp add: send_message_def Let_def js_trim_nonempty)

lemma save_rejected:
  "\<not> ok \<or> 1000 < length (js_trim t) \<Longrightarrow>
   Message_save ok (new_Message uid rid (js_trim t) (js ''text'')) s = None"
  by (auto simp add: Message_save_def Message_validate_def new_Message_def js_trim_idem)

lemma save_accepted:
  "truthy rid \<Longrightarrow> js_trim t \<noteq> [] \<Longrightarrow> length (js_trim t) \<le> 1000 \<Longrightarrow>
   m = \<lparr>sender = uid, receiver = rid, content = js_trim t, messageType = js ''text'',
        delivered = False, read = False, createdAt = Some (clock s)\<rparr> \<Longrightarrow>
   Message_save True (new_Message uid rid (js_trim t) (js ''text'')) s =
     Some (m, s\<lparr>messages := messages s @ [m], trace := trace s @ [MessageSaved m]\<rparr>)"
  by (simp add: Message_save_def Message_validate_def new_Message_def js_trim_idem
        truthy_defined Let_def)

lemma default_text:
  "p_messageType d = JUndefined \<or> p_messageType d = JStr (js ''text'') \<Longrightarrow>
   (if p_messageType d = JUndefined then JStr (js ''text'') else p_messageType d) =
     JStr (js ''text'')"
  by (cases "p_messageType d = JUndefined") simp_all

lemma send_reaches_save:
  assumes "map_of (sockets s) c = Some sock" "userId sock = Some uid" "uid \<noteq> []"
      and "truthy (p_receiverId d)" "p_content d = JStr t" "js_trim t \<noteq> []"
      and "p_messageType d = JUndefined \<or> p_messageType d = JStr (js ''text'')"
  shows "send_message io c (Some d) s =
     (case Message_save (sm_save_ok io)
             (new_Message uid (p_receiverId d) (js_trim t) (js ''text'')) s of
        None \<Rightarrow> send_failed c s
      | Some (m, s1) \<Rightarrow>
          if \<not> sm_populate_ok io then send_failed c s1
          else emit (ToSocket c) (MessageSent (populate m s1))
                 (emit (ToRoom (p_receiverId d)) (ReceiveMessage (populate m s1)) s1))"
proof -
  have "t \<noteq> []" using assms(6) by (rule js_trim_nonempty)
  then show ?thesis
    using assms(1-6) default_text [OF assms(7)]
    by (simp add: send_message_def Let_def split: option.split prod.split)
qed

lemma send_save_rejected:
  assumes "map_of (sockets s) c = Some sock" "userId sock = Some uid" "uid \<noteq> []"
      and "truthy (p_receiverId d)" "p_content d = JStr t" "js_trim t \<noteq> []"
      and "p_messageType d = JUndefined \<or> p_messageType d = JStr (js ''text'')"
      and "\<not> sm_save_ok io \<or> 1000 < length (js_trim t)"
  shows "send_message io c (Some d) s = send_failed c s"
  by (simp add: send_reaches_save [OF assms(1-7)] save_rejected [OF assms(8)])

lemma send_saved:
  assumes "map_of (sockets s) c = Some sock" "userId sock = Some uid" "uid \<noteq> []"
      and "truthy (p_receiverId d)" "p_content d = JStr t" "js_trim t \<noteq> []"
      and "p_messageType d = JUndefined \<or> p_messageType d = JStr (js ''text'')"
      and "sm_save_ok io" "length (js_trim t) \<le> 1000"
      and m: "m = \<lparr>sender = uid, receiver = p_receiverId d, content = js_trim t,
             messageType = js ''text'', delivered = False, read = False,
             createdAt = Some (clock s)\<rparr>"
      and s1: "s1 = s\<lparr>messages := messages s @ [m], trace := trace s @ [MessageSaved m]\<rparr>"
  shows "send_message io c (Some d) s =
     (if sm_populate_ok io
      then emit (ToSocket c) (MessageSent (populate m s1))
             (emit (ToRoom (p_receiverId d)) (ReceiveMessage (populate m s1)) s1)
      else send_failed c s1)"
  using assms(8) s1
  by (simp add: send_reaches_save [OF assms(1-7)] save_accepted [OF assms(4,6,9) m])

text \<open>
  Every run of the handler on an open socket ends in one of two ways: one \<open>error\<close>
  event to the sender and nothing else, or a saved message followed by the fanout (or,
  when \<^verbatim>\<open>populate\<close> rejects, by one \<open>error\<close> event to the sender).
\<close>

lemma send_message_outcomes:
  assumes sock: "map_of (sockets s) c = Some sock"
  shows "(\<exists>reason. send_message io c data s = emit (ToSocket c) (ErrorEv reason) s)
       \<or> (\<exists>uid d t m s1. userId sock = Some uid \<and> data = Some d \<and> p_content d = JStr t
             \<and> uid \<noteq> [] \<and> truthy (p_receiverId d) \<and> js_trim t \<noteq> []
             \<and> length (js_trim t) \<le> 1000
             \<and> (p_messageType d = JUndefined \<or> p_messageType d = JStr (js ''text''))
             \<and> sm_save_ok io
             \<and> m = \<lparr>sender = uid, receiver = p_receiverId d, content = js_trim t,
                     messageType = js ''text'', delivered = False, read = False,
                     createdAt = Some (clock s)\<rparr>
             \<and> s1 = s\<lparr>messages := messages s @ [m], trace := trace s @ [MessageSaved m]\<rparr>
             \<and> send_message io c data s =
                   (if sm_populate_ok io
                    then emit (ToSocket c) (MessageSent (populate m s1))
                           (emit (ToRoom (p_receiverId d)) (ReceiveMessage (populate m s1)) s1)
                    else send_failed c s1))"
proof (cases "truthy_str (userId sock)")
  case False
  then show ?thesis using send_unauthenticated [OF sock] by blast
next
  case auth: True
  then obtain uid where uid: "userId sock = Some uid" "uid \<noteq> []"
    by (cases "userId sock") auto
  show ?thesis
  proof (cases data)
    case None
    then show ?thesis using send_no_data [OF sock auth] by (auto simp: send_failed_def)
  next
    case (Some d)
    show ?thesis
    proof (cases "truthy (p_receiverId d) \<and> truthy (p_content d)")
      case False
      then show ?thesis using send_falsy_field [OF sock auth, of d io] Some by blast
    next
      case fields: True
      show ?thesis
      proof (cases "\<exists>t. p_content d = JStr t")
        case False
        then show ?thesis
          using send_content_not_string [OF sock auth, of d io] fields Some
          by (auto simp: send_failed_def)
      next
        case True
        then obtain t where t: "p_content d = JStr t" by blast
        show ?thesis
        proof (cases "js_trim t = []")
          case True
          then show ?thesis using send_blank [OF sock auth _ t, of io] fields Some by blast
        next
          case nonblank: False
          show ?thesis
          proof (cases "p_messageType d = JUndefined \<or> p_messageType d = JStr (js ''text'')")
            case False
            then show ?thesis
              using send_not_text [OF sock auth _ t nonblank, of io] fields Some by blast
          next
            case mt: True
            show ?thesis
            proof (cases "sm_save_ok io \<and> length (js_trim t) \<le> 1000")
              case False
              then have "send_message io c (Some d) s = send_failed c s"
                using send_save_rejected [OF sock uid _ t nonblank mt, of io] fields by auto
              then show ?thesis using Some by (auto simp: send_failed_def)
            next
              case True
              then show ?thesis
                using send_saved [OF sock uid _ t nonblank mt _ _ refl refl, of io]
                  fields Some uid t nonblank mt
                by auto
            qed
          qed
        qed
      qed
    qed
  qed
qed

section \<open>The scenario states, computed\<close>

lemma jv0_tok_u1: "jv0 (JStr (js ''tok:u1'')) = JwtOk u1"
  by (simp add: jv0_def js_def u1_def)

lemma jv0_tok_u2: "jv0 (JStr (js ''tok:u2'')) = JwtOk u2"
  by (simp add: jv0_def js_def u2_def)

lemma u1_neq_u2: "u1 \<noteq> u2" "u2 \<noteq> u1"
  by (simp_all add: js_def u1_def u2_def)

lemma ids_nonempty: "u1 \<noteq> []" "u2 \<noteq> []"
  by (simp_all add: js_def u1_def u2_def)

lemmas run_simps = step_def connection_def authenticate_def emit_def Let_def s0_def
  auth_ok_def lib0_def jv0_tok_u1 jv0_tok_u2 u1_neq_u2

lemma emit_fields [simp]:
  "trace (emit t e s) = trace s @ [Emit t e]" "messages (emit t e s) = messages s"
  "users (emit t e s) = users s" "connectedUsers (emit t e s) = connectedUsers s"
  "sockets (emit t e s) = sockets s" "clock (emit t e s) = clock s"
  "exited (emit t e s) = exited s"
  by (simp_all add: emit_def)

lemma s_conn_eq:
  "s_conn = s0\<lparr>sockets := [(7, \<lparr>userId = None, sock_username = None, rooms = []\<rparr>)]\<rparr>"
  by (simp add: s_conn_def run_simps)

lemma s_one_eq:
  "s_one = \<lparr>users = [(u1, alice\<lparr>isOnline := True, lastSeen := 100\<rparr>), (u2, bob)],
      messages = [],
      connectedUsers = [(u1, \<lparr>socketId = 7, entry_username = js ''alice''\<rparr>)],
      sockets = [(7, \<lparr>userId = Some u1, sock_username = Some (js ''alice''),
                       rooms = [JStr u1]\<rparr>)],
      trace = [UserSaved u1 (alice\<lparr>isOnline := True, lastSeen := 100\<rparr>),
               Emit (ToSocket 7) (Authenticated u1 (js ''alice'') (js ''alice@example.org'')),
               Emit (BroadcastFrom 7) (UserOnline u1 (js ''alice''))],
      clock = 100, exited = False\<rparr>"
  by (simp add: s_one_def run_simps alice_def)

lemma s_ab_fields:
  "sockets s_ab =
     [(7, \<lparr>userId = Some u1, sock_username = Some (js ''alice''), rooms = [JStr u1]\<rparr>),
      (8, \<lparr>userId = Some u2, sock_username = Some (js ''bob''), rooms = [JStr u2]\<rparr>)]"
  "users s_ab = [(u1, alice\<lparr>isOnline := True, lastSeen := 100\<rparr>),
                 (u2, bob\<lparr>isOnline := True, lastSeen := 100\<rparr>)]"
  "connectedUsers s_ab = [(u1, \<lparr>socketId = 7, entry_username = js ''alice''\<rparr>),
                          (u2, \<lparr>socketId = 8, entry_username = js ''bob''\<rparr>)]"
  "messages s_ab = []" "clock s_ab = 100" "exited s_ab = False"
  by (simp_all add: s_ab_def run_simps alice_def bob_def)

section \<open>Text only\<close>

text \<open>
  Claim C9. A \<open>send-message\<close> event on an open socket whose payload carries a
  \<open>messageType\<close> other than \<open>'text'\<close> (present, and not that string) makes the server
  emit exactly one \<open>error\<close> event, to the sending socket, and leaves the stored
  messages as they were: nothing is persisted. This holds whatever the other fields of
  the payload are and whether or not the store is reachable.
\<close>

theorem non_text_message_rejected:
  assumes "map_of (sockets s) c = Some sock"
      and "p_messageType d \<noteq> JUndefined" and "p_messageType d \<noteq> JStr (js ''text'')"
  shows "(\<exists>reason. trace (send_message io c (Some d) s) =
                      trace s @ [Emit (ToSocket c) (ErrorEv reason)])
         \<and> messages (send_message io c (Some d) s) = messages s"
  using send_message_outcomes [OF assms(1), of io "Some d"] assms(2,3)
  by auto

text \<open>
  The instance: \<open>u1\<close>, authenticated on socket 7, sends \<open>hi\<close> to \<open>u2\<close> with
  \<open>messageType = 'image'\<close>.
\<close>

theorem non_text_message_rejected_witness:
  "map_of (sockets s_one) 7 =
     Some \<lparr>userId = Some u1, sock_username = Some (js ''alice''), rooms = [JStr u1]\<rparr>
   \<and> p_messageType image \<noteq> JUndefined \<and> p_messageType image \<noteq> JStr (js ''text'')
   \<and> (\<exists>reason. trace (send_message send_ok 7 (Some image) s_one) =
                   trace s_one @ [Emit (ToSocket 7) (ErrorEv reason)])
   \<and> messages (send_message send_ok 7 (Some image) s_one) = messages s_one"
  using non_text_message_rejected [of s_one 7
      "\<lparr>userId = Some u1, sock_username = Some (js ''alice''), rooms = [JStr u1]\<rparr>"
      image send_ok]
  by (simp add: s_one_eq image_def js_def)

section \<open>More scenario states\<close>

lemma s_twice_fields:
  "sockets s_twice =
     [(7, \<lparr>userId = Some u1, sock_username = Some (js ''alice''), rooms = [JStr u1]\<rparr>),
      (8, \<lparr>userId = Some u1, sock_username = Some (js ''alice''), rooms = [JStr u1]\<rparr>)]"
  "users s_twice = [(u1, alice\<lparr>isOnline := True, lastSeen := 100\<rparr>), (u2, bob)]"
  "connectedUsers s_twice = [(u1, \<lparr>socketId = 8, entry_username = js ''alice''\<rparr>)]"
  "messages s_twice = []" "clock s_twice = 100" "exited s_twice = False"
  by (simp_all add: s_twice_def run_simps alice_def)

lemma s_orphan_step: "s_orphan = step lib0 (Disconnect disc_ok 7) s_twice"
  by (simp add: s_orphan_def s_twice_def)

lemma s_orphan_fields:
  "sockets s_orphan =
     [(8, \<lparr>userId = Some u1, sock_username = Some (js ''alice''), rooms = [JStr u1]\<rparr>)]"
  "users s_orphan = [(u1, alice\<lparr>isOnline := False, lastSeen := 100\<rparr>), (u2, bob)]"
  "connectedUsers s_orphan = []"
  "messages s_orphan = []" "clock s_orphan = 100" "exited s_orphan = False"
  by (simp_all add: s_orphan_step step_def disconnect_def evict_and_broadcast_def Let_def
        disc_ok_def s_twice_fields ids_nonempty alice_def)

lemmas send_simps = send_message_def send_failed_def Message_save_def Message_validate_def
  new_Message_def populate_def lookup_name_def Let_def

lemma length_js [simp]: "length (js x) = length x"
  by (simp add: js_def)

lemma js_Nil_iff [simp]: "js x = [] \<longleftrightarrow> x = []"
  by (simp add: js_def)

lemma trim_hello: "js_trim (js ''hello'') = js ''hello''"
  by (simp add: js_trim_def js_ws_def js_def)

lemma trim_blank: "js_trim (js ''   '') = []"
  by (simp add: js_trim_def js_ws_def js_def)

lemma trim_long: "js_trim (replicate 1001 97) = replicate 1001 97"
  by (simp add: js_trim_def js_ws_def)

lemma trim_padded: "js_trim (97 # replicate 1000 32) = [97]" "js_trim [97] = [97]"
proof -
  have ws: "js_ws 32" and nws: "\<not> js_ws 97"
    by (simp_all add: js_ws_def)
  have "dropWhile js_ws (replicate 1000 32 @ [97]) = dropWhile js_ws [97]"
    by (rule dropWhile_append2) (simp add: ws)
  then show "js_trim (97 # replicate 1000 32) = [97]"
    using nws by (simp add: js_trim_def)
  show "js_trim [97] = [97]"
    using nws by (simp add: js_trim_def)
qed

lemma populate_doc [simp]: "doc (populate m s) = m"
  by (simp add: populate_def)

lemma send_hello_ab:
  "messages (send_message send_ok 7 (Some hello) s_ab) = [hello_saved]"
  "trace (send_message send_ok 7 (Some hello) s_ab) =
       trace s_ab @ [MessageSaved hello_saved,
                     Emit (ToRoom (JStr u2)) (ReceiveMessage hello_view),
                     Emit (ToSocket 7) (MessageSent hello_view)]"
  by (simp_all add: send_simps s_ab_fields hello_def hello_saved_def hello_view_def
        send_ok_def trim_hello ids_nonempty u1_neq_u2 alice_def bob_def emit_def)

section \<open>Validation of a send\<close>

text \<open>
  Claim C5, as amended. A \<open>send-message\<close> event on an open socket is rejected, with
  one \<open>error\<close> event to the sending socket and no message persisted, whenever
  \<open>receiverId\<close> is absent (or any other falsy value), or \<open>content\<close> is a string that
  is empty after trimming surrounding white space, or \<open>content\<close> is a string that after
  trimming is longer than the cap of 1000 code units. The first two conditions are
  checked by the handler itself; the cap is the schema's \<^verbatim>\<open>maxLength\<close>, which
  \<^verbatim>\<open>save()\<close> checks on the trimmed content it is about to store.
\<close>

theorem invalid_send_rejected:
  assumes "map_of (sockets s) c = Some sock"
      and "\<not> truthy (p_receiverId d)
           \<or> (\<exists>t. p_content d = JStr t \<and> (js_trim t = [] \<or> 1000 < length (js_trim t)))"
  shows "(\<exists>reason. trace (send_message io c (Some d) s) =
                      trace s @ [Emit (ToSocket c) (ErrorEv reason)])
         \<and> messages (send_message io c (Some d) s) = messages s"
  using send_message_outcomes [OF assms(1), of io "Some d"] assms(2)
  by auto

text \<open>
  The instances: \<open>u1\<close> sends a content of three spaces, a content of 1001 letters, a
  message without \<open>receiverId\<close>, and the empty content.
\<close>

theorem invalid_send_rejected_witness:
  "map_of (sockets s_one) 7 =
     Some \<lparr>userId = Some u1, sock_username = Some (js ''alice''), rooms = [JStr u1]\<rparr>
   \<and> p_content blank = JStr (js ''   '') \<and> js_trim (js ''   '') = []
   \<and> (\<exists>reason. trace (send_message send_ok 7 (Some blank) s_one) =
                   trace s_one @ [Emit (ToSocket 7) (ErrorEv reason)])
   \<and> messages (send_message send_ok 7 (Some blank) s_one) = messages s_one
   \<and> p_content too_long = JStr (replicate 1001 97)
   \<and> 1000 < length (js_trim (replicate 1001 97))
   \<and> (\<exists>reason. trace (send_message send_ok 7 (Some too_long) s_one) =
                   trace s_one @ [Emit (ToSocket 7) (ErrorEv reason)])
   \<and> messages (send_message send_ok 7 (Some too_long) s_one) = messages s_one
   \<and> \<not> truthy (p_receiverId no_receiver)
   \<and> (\<exists>reason. trace (send_message send_ok 7 (Some no_receiver) s_one) =
                   trace s_one @ [Emit (ToSocket 7) (ErrorEv reason)])
   \<and> messages (send_message send_ok 7 (Some no_receiver) s_one) = messages s_one
   \<and> p_content empty_content = JStr [] \<and> js_trim [] = []
   \<and> (\<exists>reason. trace (send_message send_ok 7 (Some empty_content) s_one) =
                   trace s_one @ [Emit (ToSocket 7) (ErrorEv reason)])
   \<and> messages (send_message send_ok 7 (Some empty_content) s_one) = messages s_one"
  using invalid_send_rejected [of s_one 7
      "\<lparr>userId = Some u1, sock_username = Some (js ''alice''), rooms = [JStr u1]\<rparr>"
      blank send_ok]
    invalid_send_rejected [of s_one 7
      "\<lparr>userId = Some u1, sock_username = Some (js ''alice''), rooms = [JStr u1]\<rparr>"
      too_long send_ok]
    invalid_send_rejected [of s_one 7
      "\<lparr>userId = Some u1, sock_username = Some (js ''alice''), rooms = [JStr u1]\<rparr>"
      no_receiver send_ok]
    invalid_send_rejected [of s_one 7
      "\<lparr>userId = Some u1, sock_username = Some (js ''alice''), rooms = [JStr u1]\<rparr>"
      empty_content send_ok]
  by (simp add: s_one_eq blank_def too_long_def no_receiver_def empty_content_def
        trim_blank trim_long)

text \<open>
  The claim as stated fails for a content that exceeds the cap only by the white space
  around it: the letter \<open>a\<close> followed by 1000 spaces has 1001 code units, and it is
  accepted, stored as \<open>a\<close> and fanned out.
\<close>

theorem padded_content_accepted_counterexample:
  "map_of (sockets s_one) 7 =
     Some \<lparr>userId = Some u1, sock_username = Some (js ''alice''), rooms = [JStr u1]\<rparr>
   \<and> p_content padded = JStr (97 # replicate 1000 32)
   \<and> length (97 # replicate 1000 32 :: jsstring) = 1001
   \<and> messages (send_message send_ok 7 (Some padded) s_one) = [padded_saved]
   \<and> trace (send_message send_ok 7 (Some padded) s_one) =
       trace s_one @ [MessageSaved padded_saved,
                      Emit (ToRoom (JStr u2)) (ReceiveMessage padded_view),
                      Emit (ToSocket 7) (MessageSent padded_view)]"
  by (simp add: send_simps s_one_eq padded_def padded_saved_def padded_view_def
        send_ok_def trim_padded ids_nonempty u1_neq_u2 alice_def bob_def emit_def)

section \<open>Who may send\<close>

text \<open>
  Claim C4, as amended. The handler does not consult the connection registry: its guard
  is the \<^verbatim>\<open>userId\<close> property of the socket. A \<open>send-message\<close> event on a socket whose
  \<^verbatim>\<open>userId\<close> is unset makes the server emit \<open>error\<close> (\<open>Not authenticated\<close>) to that
  socket only; no message is persisted, no \<open>receive-message\<close> is emitted, and the store
  and the registry are unchanged.
\<close>

theorem unauthenticated_socket_cannot_send:
  assumes "map_of (sockets s) c = Some sock" and "\<not> truthy_str (userId sock)"
  shows "trace (send_message io c data s) =
           trace s @ [Emit (ToSocket c) (ErrorEv ''Not authenticated'')]
         \<and> messages (send_message io c data s) = messages s
         \<and> users (send_message io c data s) = users s
         \<and> connectedUsers (send_message io c data s) = connectedUsers s"
  by (simp add: send_unauthenticated [OF assms])

theorem unauthenticated_socket_cannot_send_witness:
  "map_of (sockets s_conn) 7 = Some \<lparr>userId = None, sock_username = None, rooms = []\<rparr>
   \<and> \<not> truthy_str (userId \<lparr>userId = None, sock_username = None, rooms = []\<rparr>)
   \<and> trace (send_message send_ok 7 (Some hello) s_conn) =
           trace s_conn @ [Emit (ToSocket 7) (ErrorEv ''Not authenticated'')]
   \<and> messages (send_message send_ok 7 (Some hello) s_conn) = messages s_conn
   \<and> users (send_message send_ok 7 (Some hello) s_conn) = users s_conn
   \<and> connectedUsers (send_message send_ok 7 (Some hello) s_conn) = connectedUsers s_conn"
  using unauthenticated_socket_cannot_send [of s_conn 7
      "\<lparr>userId = None, sock_username = None, rooms = []\<rparr>" send_ok "Some hello"]
  by (simp add: s_conn_eq)

text \<open>
  The claim as stated fails. Sockets 7 and 8 authenticate as \<open>u1\<close>; socket 7
  disconnects, which deletes the entry of \<open>u1\<close> from the registry. Socket 8, whose sender
  \<open>u1\<close> now has no registry entry, sends \<open>hello\<close> to \<open>u2\<close>: the message is persisted and
  \<open>receive-message\<close> is emitted to the room of \<open>u2\<close>.
\<close>

theorem send_without_registry_entry_counterexample:
  "map_of (connectedUsers s_orphan) u1 = None
   \<and> map_of (sockets s_orphan) 8 =
       Some \<lparr>userId = Some u1, sock_username = Some (js ''alice''), rooms = [JStr u1]\<rparr>
   \<and> messages (send_message send_ok 8 (Some hello) s_orphan) = [hello_saved]
   \<and> trace (send_message send_ok 8 (Some hello) s_orphan) =
       trace s_orphan @ [MessageSaved hello_saved,
                         Emit (ToRoom (JStr u2)) (ReceiveMessage hello_view),
                         Emit (ToSocket 8) (MessageSent hello_view)]"
  by (simp add: send_simps s_orphan_fields hello_def hello_saved_def hello_view_def
        send_ok_def trim_hello ids_nonempty u1_neq_u2 alice_def bob_def emit_def)

section \<open>Persistence, then fanout\<close>

lemma saved_doc_eq:
  "saved_doc uid rid t now =
     \<lparr>sender = uid, receiver = rid, content = js_trim t, messageType = js ''text'',
      delivered = False, read = False, createdAt = Some now\<rparr>"
  by (simp add: saved_doc_def new_Message_def js_trim_idem)

lemma populate_after_save [simp]:
  "populate m (s\<lparr>messages := ms, trace := tr\<rparr>) = populate m s"
  by (simp add: populate_def)

text \<open>
  Claim C6. Every run of the \<open>send-message\<close> handler on an open socket either emits one
  \<open>error\<close> event to the sender and persists nothing, or first saves the message, with
  \<open>createdAt\<close> read from the server's clock, and only then emits: \<open>receive-message\<close>
  to the receiver's room and \<open>message-sent\<close> to the sender, both carrying the saved
  document (or, when \<^verbatim>\<open>populate\<close> rejects, one \<open>error\<close> to the sender). When the
  store rejects the save, the first case applies: no \<open>receive-message\<close>, no
  \<open>message-sent\<close>, one \<open>error\<close> to the sender only. And a send that passes the checks
  of the handler and the validators of the schema is persisted and fanned out in
  exactly this way: when the store accepts the save, the stored messages grow by the
  document \<open>saved_doc\<close>, whose \<open>createdAt\<close> is the server's clock, and the effects are
  the save, then \<open>receive-message\<close> to the room of \<open>receiverId\<close>, then \<open>message-sent\<close>
  to the sender; when the store rejects it, nothing is stored and the only effect is
  the \<open>error\<close> event \<open>Failed to send message\<close> to the sender.
\<close>

theorem persist_before_fanout:
  assumes "map_of (sockets s) c = Some sock"
  shows "(((\<exists>reason. trace (send_message io c data s) =
                        trace s @ [Emit (ToSocket c) (ErrorEv reason)])
           \<and> messages (send_message io c data s) = messages s)
          \<or> (\<exists>m rest. messages (send_message io c data s) = messages s @ [m]
                \<and> createdAt m = Some (clock s)
                \<and> trace (send_message io c data s) = trace s @ MessageSaved m # rest
                \<and> (rest = [Emit (ToSocket c) (ErrorEv ''Failed to send message'')]
                    \<or> (\<exists>rid v. doc v = m
                          \<and> rest = [Emit (ToRoom rid) (ReceiveMessage v),
                                     Emit (ToSocket c) (MessageSent v)]))))
       \<and> (\<not> sm_save_ok io \<longrightarrow>
            (\<exists>reason. trace (send_message io c data s) =
                         trace s @ [Emit (ToSocket c) (ErrorEv reason)])
            \<and> messages (send_message io c data s) = messages s)
       \<and> (\<forall>uid d t.
             userId sock = Some uid \<and> uid \<noteq> [] \<and> data = Some d
             \<and> truthy (p_receiverId d) \<and> p_content d = JStr t
             \<and> js_trim t \<noteq> [] \<and> length (js_trim t) \<le> 1000
             \<and> (p_messageType d = JUndefined \<or> p_messageType d = JStr (js ''text''))
             \<longrightarrow>
             (sm_save_ok io \<and> sm_populate_ok io \<longrightarrow>
                messages (send_message io c data s) =
                  messages s @ [saved_doc uid (p_receiverId d) t (clock s)]
                \<and> trace (send_message io c data s) =
                    trace s
                    @ [MessageSaved (saved_doc uid (p_receiverId d) t (clock s)),
                       Emit (ToRoom (p_receiverId d))
                         (ReceiveMessage
                            (populate (saved_doc uid (p_receiverId d) t (clock s)) s)),
                       Emit (ToSocket c)
                         (MessageSent
                            (populate (saved_doc uid (p_receiverId d) t (clock s)) s))])
             \<and> (sm_save_ok io \<and> \<not> sm_populate_ok io \<longrightarrow>
                  messages (send_message io c data s) =
                    messages s @ [saved_doc uid (p_receiverId d) t (clock s)]
                  \<and> trace (send_message io c data s) =
                      trace s
                      @ [MessageSaved (saved_doc uid (p_receiverId d) t (clock s)),
                         Emit (ToSocket c) (ErrorEv ''Failed to send message'')])
             \<and> (\<not> sm_save_ok io \<longrightarrow>
                  messages (send_message io c data s) = messages s
                  \<and> trace (send_message io c data s) =
                      trace s @ [Emit (ToSocket c) (ErrorEv ''Failed to send message'')]))"
proof -
  have shape: "((\<exists>reason. trace (send_message io c data s) =
                        trace s @ [Emit (ToSocket c) (ErrorEv reason)])
           \<and> messages (send_message io c data s) = messages s)
          \<or> (\<exists>m rest. messages (send_message io c data s) = messages s @ [m]
                \<and> createdAt m = Some (clock s)
                \<and> trace (send_message io c data s) = trace s @ MessageSaved m # rest
                \<and> (rest = [Emit (ToSocket c) (ErrorEv ''Failed to send message'')]
                    \<or> (\<exists>rid v. doc v = m
                          \<and> rest = [Emit (ToRoom rid) (ReceiveMessage v),
                                     Emit (ToSocket c) (MessageSent v)])))"
    using send_message_outcomes [OF assms, of io data]
    by (auto simp: send_failed_def)
  have down: "\<not> sm_save_ok io \<longrightarrow>
            (\<exists>reason. trace (send_message io c data s) =
                         trace s @ [Emit (ToSocket c) (ErrorEv reason)])
            \<and> messages (send_message io c data s) = messages s"
    using send_message_outcomes [OF assms, of io data]
    by (auto simp: send_failed_def)
  have accepted: "sm_save_ok io \<longrightarrow>
      send_message io c data s =
        (if sm_populate_ok io
         then emit (ToSocket c) (MessageSent (populate (saved_doc uid (p_receiverId d) t (clock s)) s))
                (emit (ToRoom (p_receiverId d))
                   (ReceiveMessage (populate (saved_doc uid (p_receiverId d) t (clock s)) s))
                   (s\<lparr>messages := messages s @ [saved_doc uid (p_receiverId d) t (clock s)],
                      trace := trace s @ [MessageSaved (saved_doc uid (p_receiverId d) t (clock s))]\<rparr>))
         else send_failed c
                (s\<lparr>messages := messages s @ [saved_doc uid (p_receiverId d) t (clock s)],
                   trace := trace s @ [MessageSaved (saved_doc uid (p_receiverId d) t (clock s))]\<rparr>))"
    and rejected: "\<not> sm_save_ok io \<longrightarrow> send_message io c data s = send_failed c s"
    if c: "userId sock = Some uid" "uid \<noteq> []" "data = Some d"
          "truthy (p_receiverId d)" "p_content d = JStr t"
          "js_trim t \<noteq> []" "length (js_trim t) \<le> 1000"
          "p_messageType d = JUndefined \<or> p_messageType d = JStr (js ''text'')"
    for uid d t
  proof -
    show "sm_save_ok io \<longrightarrow>
      send_message io c data s =
        (if sm_populate_ok io
         then emit (ToSocket c) (MessageSent (populate (saved_doc uid (p_receiverId d) t (clock s)) s))
                (emit (ToRoom (p_receiverId d))
                   (ReceiveMessage (populate (saved_doc uid (p_receiverId d) t (clock s)) s))
                   (s\<lparr>messages := messages s @ [saved_doc uid (p_receiverId d) t (clock s)],
                      trace := trace s @ [MessageSaved (saved_doc uid (p_receiverId d) t (clock s))]\<rparr>))
         else send_failed c
                (s\<lparr>messages := messages s @ [saved_doc uid (p_receiverId d) t (clock s)],
                   trace := trace s @ [MessageSaved (saved_doc uid (p_receiverId d) t (clock s))]\<rparr>))"
    proof
      assume ok: "sm_save_ok io"
      show "send_message io c data s =
        (if sm_populate_ok io
         then emit (ToSocket c) (MessageSent (populate (saved_doc uid (p_receiverId d) t (clock s)) s))
                (emit (ToRoom (p_receiverId d))
                   (ReceiveMessage (populate (saved_doc uid (p_receiverId d) t (clock s)) s))
                   (s\<lparr>messages := messages s @ [saved_doc uid (p_receiverId d) t (clock s)],
                      trace := trace s @ [MessageSaved (saved_doc uid (p_receiverId d) t (clock s))]\<rparr>))
         else send_failed c
                (s\<lparr>messages := messages s @ [saved_doc uid (p_receiverId d) t (clock s)],
                   trace := trace s @ [MessageSaved (saved_doc uid (p_receiverId d) t (clock s))]\<rparr>))"
        using send_saved [OF assms c(1,2,4,5,6,8) ok c(7) saved_doc_eq refl] c(3)
        by simp
    qed
    show "\<not> sm_save_ok io \<longrightarrow> send_message io c data s = send_failed c s"
      using send_save_rejected [OF assms c(1,2,4,5,6,8)] c(3) by simp
  qed
  show ?thesis
    using shape down accepted rejected
    by (simp add: send_failed_def)
qed


lemma hello_accepted:
  "userId \<lparr>userId = Some u1, sock_username = Some (js ''alice''), rooms = [JStr u1]\<rparr> = Some u1
   \<and> u1 \<noteq> [] \<and> Some hello = Some hello
   \<and> truthy (p_receiverId hello) \<and> p_content hello = JStr (js ''hello'')
   \<and> js_trim (js ''hello'') \<noteq> [] \<and> length (js_trim (js ''hello'')) \<le> 1000
   \<and> (p_messageType hello = JUndefined \<or> p_messageType hello = JStr (js ''text''))"
  by (simp add: hello_def ids_nonempty trim_hello)

lemma hello_docs:
  "saved_doc u1 (p_receiverId hello) (js ''hello'') (clock s_ab) = hello_saved"
  "populate hello_saved s_ab = hello_view"
  by (simp_all add: saved_doc_eq hello_def hello_saved_def hello_view_def trim_hello
        s_ab_fields populate_def lookup_name_def u1_neq_u2 alice_def bob_def)

text \<open>
  The instances: \<open>u1\<close> sends \<open>hello\<close> to \<open>u2\<close>, once with the store up and once with
  the store down.
\<close>

theorem persist_before_fanout_witness:
  "map_of (sockets s_ab) 7 =
     Some \<lparr>userId = Some u1, sock_username = Some (js ''alice''), rooms = [JStr u1]\<rparr>
   \<and> sm_save_ok send_ok \<and> sm_populate_ok send_ok
   \<and> messages (send_message send_ok 7 (Some hello) s_ab) = messages s_ab @ [hello_saved]
   \<and> createdAt hello_saved = Some (clock s_ab)
   \<and> trace (send_message send_ok 7 (Some hello) s_ab) =
       trace s_ab @ [MessageSaved hello_saved,
                     Emit (ToRoom (JStr u2)) (ReceiveMessage hello_view),
                     Emit (ToSocket 7) (MessageSent hello_view)]
   \<and> \<not> sm_save_ok store_down
   \<and> messages (send_message store_down 7 (Some hello) s_ab) = messages s_ab
   \<and> trace (send_message store_down 7 (Some hello) s_ab) =
       trace s_ab @ [Emit (ToSocket 7) (ErrorEv ''Failed to send message'')]"
proof -
  have sock: "map_of (sockets s_ab) 7 =
     Some \<lparr>userId = Some u1, sock_username = Some (js ''alice''), rooms = [JStr u1]\<rparr>"
    by (simp add: s_ab_fields)
  have up: "sm_save_ok send_ok \<and> sm_populate_ok send_ok" and down: "\<not> sm_save_ok store_down"
    by (simp_all add: send_ok_def store_down_def)
  have "messages (send_message send_ok 7 (Some hello) s_ab) =
          messages s_ab @ [saved_doc u1 (p_receiverId hello) (js ''hello'') (clock s_ab)]
        \<and> trace (send_message send_ok 7 (Some hello) s_ab) =
            trace s_ab
            @ [MessageSaved (saved_doc u1 (p_receiverId hello) (js ''hello'') (clock s_ab)),
               Emit (ToRoom (p_receiverId hello))
                 (ReceiveMessage
                    (populate (saved_doc u1 (p_receiverId hello) (js ''hello'') (clock s_ab)) s_ab)),
               Emit (ToSocket 7)
                 (MessageSent
                    (populate (saved_doc u1 (p_receiverId hello) (js ''hello'') (clock s_ab)) s_ab))]"
    using persist_before_fanout [OF sock, of send_ok "Some hello"] hello_accepted up
    by blast
  moreover have "messages (send_message store_down 7 (Some hello) s_ab) = messages s_ab
        \<and> trace (send_message store_down 7 (Some hello) s_ab) =
            trace s_ab @ [Emit (ToSocket 7) (ErrorEv ''Failed to send message'')]"
    using persist_before_fanout [OF sock, of store_down "Some hello"] hello_accepted down
    by blast
  ultimately show ?thesis
    using sock up down
    by (simp add: hello_docs) (simp add: hello_def hello_saved_def s_ab_fields)
qed

section \<open>The delivered flag\<close>

text \<open>
  Claim C1, as amended. No handler writes \<open>delivered\<close>. For every accepted send (one
  that persists a message) the persisted message has \<open>delivered = false\<close>, the schema
  default; \<open>receive-message\<close> and \<open>message-sent\<close> carry that same document, so the
  receiver observes \<open>delivered = false\<close>; and the emission to the sender is the last
  thing the handler does: no store write follows the fanout.
\<close>

theorem accepted_send_leaves_delivered_false:
  assumes "map_of (sockets s) c = Some sock"
      and "messages (send_message io c data s) \<noteq> messages s"
  shows "\<exists>m. messages (send_message io c data s) = messages s @ [m]
            \<and> delivered m = False
            \<and> (trace (send_message io c data s) =
                  trace s @ [MessageSaved m,
                             Emit (ToSocket c) (ErrorEv ''Failed to send message'')]
               \<or> (\<exists>rid v. doc v = m
                     \<and> trace (send_message io c data s) =
                         trace s @ [MessageSaved m,
                                    Emit (ToRoom rid) (ReceiveMessage v),
                                    Emit (ToSocket c) (MessageSent v)]))"
  using send_message_outcomes [OF assms(1), of io data] assms(2)
  by (auto simp: send_failed_def)

theorem accepted_send_leaves_delivered_false_witness:
  "map_of (sockets s_ab) 7 =
     Some \<lparr>userId = Some u1, sock_username = Some (js ''alice''), rooms = [JStr u1]\<rparr>
   \<and> messages (send_message send_ok 7 (Some hello) s_ab) \<noteq> messages s_ab
   \<and> (\<exists>m. messages (send_message send_ok 7 (Some hello) s_ab) = messages s_ab @ [m]
            \<and> delivered m = False
            \<and> (trace (send_message send_ok 7 (Some hello) s_ab) =
                  trace s_ab @ [MessageSaved m,
                             Emit (ToSocket 7) (ErrorEv ''Failed to send message'')]
               \<or> (\<exists>rid v. doc v = m
                     \<and> trace (send_message send_ok 7 (Some hello) s_ab) =
                         trace s_ab @ [MessageSaved m,
                                    Emit (ToRoom rid) (ReceiveMessage v),
                                    Emit (ToSocket 7) (MessageSent v)])))"
  using accepted_send_leaves_delivered_false [of s_ab 7
      "\<lparr>userId = Some u1, sock_username = Some (js ''alice''), rooms = [JStr u1]\<rparr>"
      send_ok "Some hello"]
  by (simp add: s_ab_fields send_hello_ab(1))

text \<open>
  The claim as stated fails on the scenario of the specification: \<open>u1\<close> sends \<open>hello\<close>
  to \<open>u2\<close>, who has a live connection. The room of \<open>u2\<close> receives the message with
  \<open>delivered = false\<close>, and that is also what the store holds.
\<close>

theorem delivered_flag_counterexample:
  "map_of (connectedUsers s_ab) u2 = Some \<lparr>socketId = 8, entry_username = js ''bob''\<rparr>
   \<and> messages (send_message send_ok 7 (Some hello) s_ab) = [hello_saved]
   \<and> trace (send_message send_ok 7 (Some hello) s_ab) =
       trace s_ab @ [MessageSaved hello_saved,
                     Emit (ToRoom (JStr u2)) (ReceiveMessage hello_view),
                     Emit (ToSocket 7) (MessageSent hello_view)]
   \<and> doc hello_view = hello_saved
   \<and> delivered hello_saved = False"
  by (simp add: send_hello_ab s_ab_fields u1_neq_u2 hello_view_def hello_saved_def)

section \<open>The branches of the authenticate handler\<close>

lemma authenticate_throws:
  "map_of (sockets s) c = Some sock \<Longrightarrow>
   jwt_verify token = JwtExpired \<or> jwt_verify token = JwtMalformed \<Longrightarrow>
   authenticate jwt_verify io c token s =
     emit (ToSocket c) (AuthenticationError ''Invalid token'') s"
  by (auto simp add: authenticate_def)

lemma authenticate_find_rejected:
  "map_of (sockets s) c = Some sock \<Longrightarrow> jwt_verify token = JwtOk i \<Longrightarrow> \<not> au_find_ok io \<Longrightarrow>
   authenticate jwt_verify io c token s =
     emit (ToSocket c) (AuthenticationError ''Invalid token'') s"
  by (simp add: authenticate_def)

lemma authenticate_unknown_user:
  "map_of (sockets s) c = Some sock \<Longrightarrow> jwt_verify token = JwtOk i \<Longrightarrow> au_find_ok io \<Longrightarrow>
   map_of (users s) i = None \<Longrightarrow>
   authenticate jwt_verify io c token s =
     emit (ToSocket c) (AuthenticationError ''User not found'') s"
  by (simp add: authenticate_def)

lemma authenticate_save_rejected:
  "map_of (sockets s) c = Some sock \<Longrightarrow> jwt_verify token = JwtOk i \<Longrightarrow> au_find_ok io \<Longrightarrow>
   map_of (users s) i = Some u \<Longrightarrow> \<not> au_save_ok io \<Longrightarrow>
   authenticate jwt_verify io c token s =
     emit (ToSocket c) (AuthenticationError ''Invalid token'')
       (s\<lparr>sockets := AList.update c
             (sock\<lparr>userId := Some i, sock_username := Some (username u),
                   rooms := List.insert (JStr i) (rooms sock)\<rparr>) (sockets s)\<rparr>)"
  by (simp add: authenticate_def Let_def)

lemma authenticate_admitted:
  "map_of (sockets s) c = Some sock \<Longrightarrow> jwt_verify token = JwtOk i \<Longrightarrow> au_find_ok io \<Longrightarrow>
   map_of (users s) i = Some u \<Longrightarrow> au_save_ok io \<Longrightarrow>
   authenticate jwt_verify io c token s =
     s\<lparr>sockets := AList.update c
           (sock\<lparr>userId := Some i, sock_username := Some (username u),
                 rooms := List.insert (JStr i) (rooms sock)\<rparr>) (sockets s),
       users := AList.update i (u\<lparr>isOnline := True, lastSeen := clock s\<rparr>) (users s),
       connectedUsers := AList.update i \<lparr>socketId = c, entry_username = username u\<rparr>
                           (connectedUsers s),
       trace := trace s @ [UserSaved i (u\<lparr>isOnline := True, lastSeen := clock s\<rparr>),
                           Emit (ToSocket c) (Authenticated i (username u) (email u)),
                           Emit (BroadcastFrom c) (UserOnline i (username u))]\<rparr>"
  by (simp add: authenticate_def Let_def emit_def)

lemma jv0_expired: "jv0 (JStr (js ''expired'')) = JwtExpired"
  by (simp add: jv0_def)

lemma jv0_garbage: "jv0 (JStr (js ''garbage'')) = JwtMalformed"
  by (simp add: jv0_def js_def)

lemma jv0_tok_u9: "jv0 (JStr (js ''tok:u9'')) = JwtOk (js ''u9'')"
  by (simp add: jv0_def js_def)

lemma u9_unknown: "map_of (users s_conn) (js ''u9'') = None"
  by (simp add: s_conn_eq s0_def u1_def u2_def js_def)

lemma s_conn_socket:
  "map_of (sockets s_conn) 7 = Some \<lparr>userId = None, sock_username = None, rooms = []\<rparr>"
  by (simp add: s_conn_eq)

section \<open>What a failed handshake tells the client\<close>

text \<open>
  Claim C3, as amended. A handshake that fails because \<^verbatim>\<open>jwt.verify\<close> throws, be the
  token expired or malformed, is answered by one \<open>authentication-error\<close> event with the
  reason \<open>Invalid token\<close>, sent to that connection only, and changes nothing else: the
  two causes cannot be told apart. A handshake whose token verifies but resolves to no
  stored user is answered by one \<open>authentication-error\<close> event with the reason
  \<open>User not found\<close>: this cause can be told from the two others.
\<close>

theorem authentication_failure_replies:
  assumes "map_of (sockets s) c = Some sock"
  shows "(jwt_verify token = JwtExpired \<or> jwt_verify token = JwtMalformed \<longrightarrow>
            authenticate jwt_verify io c token s =
              emit (ToSocket c) (AuthenticationError ''Invalid token'') s)
       \<and> (\<forall>i. jwt_verify token = JwtOk i \<and> au_find_ok io \<and> map_of (users s) i = None \<longrightarrow>
            authenticate jwt_verify io c token s =
              emit (ToSocket c) (AuthenticationError ''User not found'') s)"
  using authenticate_throws [OF assms] authenticate_unknown_user [OF assms]
  by blast

theorem authentication_failure_replies_witness:
  "map_of (sockets s_conn) 7 = Some \<lparr>userId = None, sock_username = None, rooms = []\<rparr>
   \<and> jv0 (JStr (js ''expired'')) = JwtExpired
   \<and> authenticate jv0 auth_ok 7 (JStr (js ''expired'')) s_conn =
       emit (ToSocket 7) (AuthenticationError ''Invalid token'') s_conn
   \<and> jv0 (JStr (js ''garbage'')) = JwtMalformed
   \<and> authenticate jv0 auth_ok 7 (JStr (js ''garbage'')) s_conn =
       emit (ToSocket 7) (AuthenticationError ''Invalid token'') s_conn
   \<and> jv0 (JStr (js ''tok:u9'')) = JwtOk (js ''u9'') \<and> au_find_ok auth_ok
   \<and> map_of (users s_conn) (js ''u9'') = None
   \<and> authenticate jv0 auth_ok 7 (JStr (js ''tok:u9'')) s_conn =
       emit (ToSocket 7) (AuthenticationError ''User not found'') s_conn"
  using authentication_failure_replies [of s_conn 7
      "\<lparr>userId = None, sock_username = None, rooms = []\<rparr>" jv0 "JStr (js ''expired'')" auth_ok]
    authentication_failure_replies [of s_conn 7
      "\<lparr>userId = None, sock_username = None, rooms = []\<rparr>" jv0 "JStr (js ''garbage'')" auth_ok]
    authentication_failure_replies [of s_conn 7
      "\<lparr>userId = None, sock_username = None, rooms = []\<rparr>" jv0 "JStr (js ''tok:u9'')" auth_ok]
  by (simp add: jv0_expired jv0_garbage jv0_tok_u9 u9_unknown s_conn_socket auth_ok_def)

text \<open>
  The claim as stated fails: on the same connection an expired token and a token of the
  unknown user \<open>u9\<close> get different replies.
\<close>

theorem authentication_failure_reasons_counterexample:
  "jv0 (JStr (js ''expired'')) = JwtExpired
   \<and> trace (authenticate jv0 auth_ok 7 (JStr (js ''expired'')) s_conn) =
       [Emit (ToSocket 7) (AuthenticationError ''Invalid token'')]
   \<and> jv0 (JStr (js ''tok:u9'')) = JwtOk (js ''u9'')
   \<and> map_of (users s_conn) (js ''u9'') = None
   \<and> trace (authenticate jv0 auth_ok 7 (JStr (js ''tok:u9'')) s_conn) =
       [Emit (ToSocket 7) (AuthenticationError ''User not found'')]"
  by (simp add: authenticate_def jv0_expired jv0_tok_u9 u9_unknown s_conn_socket auth_ok_def)
     (simp add: s_conn_eq s0_def)

section \<open>The branches of the disconnect handler\<close>



lemma disconnect_unknown_user:
  "map_of (sockets s) c = Some sock \<Longrightarrow> userId sock = Some uid \<Longrightarrow> uid \<noteq> [] \<Longrightarrow>
   dc_find_ok io \<Longrightarrow> map_of (users s) uid = None \<Longrightarrow>
   disconnect io c s =
     s\<lparr>connectedUsers := AList.delete uid (connectedUsers s),
       trace := trace s @ [Emit (BroadcastFrom c) (UserOffline uid (sock_username sock))]\<rparr>"
  by (simp add: disconnect_def Let_def evict_and_broadcast_def emit_def)

lemma disconnect_offline:
  "map_of (sockets s) c = Some sock \<Longrightarrow> userId sock = Some uid \<Longrightarrow> uid \<noteq> [] \<Longrightarrow>
   dc_find_ok io \<Longrightarrow> map_of (users s) uid = Some u \<Longrightarrow> dc_save_ok io \<Longrightarrow>
   disconnect io c s =
     s\<lparr>users := AList.update uid (offline_at (clock s) u) (users s),
       connectedUsers := AList.delete uid (connectedUsers s),
       trace := trace s @ [UserSaved uid (offline_at (clock s) u),
                           Emit (BroadcastFrom c) (UserOffline uid (sock_username sock))]\<rparr>"
  by (simp add: disconnect_def Let_def evict_and_broadcast_def emit_def offline_at_def)

lemma delete_absent: "map_of al k = None \<Longrightarrow> AList.delete k al = al"
  by (induction al) (auto split: if_splits)

lemma authenticate_keys_distinct:
  assumes "distinct (map fst (connectedUsers s))"
  shows "distinct (map fst (connectedUsers (authenticate jv aio c token s)))"
proof (cases "map_of (sockets s) c")
  case None
  then show ?thesis using assms by (simp add: authenticate_def)
next
  case sock: (Some sock)
  show ?thesis
  proof (cases "jv token")
    case JwtExpired
    then show ?thesis using assms authenticate_throws [OF sock, of jv token aio] by simp
  next
    case JwtMalformed
    then show ?thesis using assms authenticate_throws [OF sock, of jv token aio] by simp
  next
    case ok: (JwtOk i)
    show ?thesis
    proof (cases "au_find_ok aio")
      case False
      then show ?thesis
        using assms sock ok
          authenticate_find_rejected [where jwt_verify = jv and token = token and s = s]
        by simp
    next
      case found: True
      show ?thesis
      proof (cases "map_of (users s) i")
        case None
        then show ?thesis
          using assms sock ok found
            authenticate_unknown_user [where jwt_verify = jv and token = token and s = s]
          by simp
      next
        case (Some u)
        show ?thesis
        proof (cases "au_save_ok aio")
          case False
          then show ?thesis
            using assms sock ok found Some
              authenticate_save_rejected [where jwt_verify = jv and token = token and s = s]
            by simp
        next
          case True
          then show ?thesis
            using assms sock ok found Some
              authenticate_admitted [where jwt_verify = jv and token = token and s = s]
            by (simp add: distinct_update)
        qed
      qed
    qed
  qed
qed

lemma s_half_fields:
  "sockets s_half =
     [(7, \<lparr>userId = Some u1, sock_username = Some (js ''alice''), rooms = [JStr u1]\<rparr>),
      (8, \<lparr>userId = Some u1, sock_username = Some (js ''alice''), rooms = [JStr u1]\<rparr>)]"
  "users s_half = [(u1, alice\<lparr>isOnline := True, lastSeen := 100\<rparr>), (u2, bob)]"
  "connectedUsers s_half = [(u1, \<lparr>socketId = 8, entry_username = js ''alice''\<rparr>)]"
  "trace s_half =
     [UserSaved u1 (alice\<lparr>isOnline := True, lastSeen := 100\<rparr>),
      Emit (ToSocket 8) (Authenticated u1 (js ''alice'') (js ''alice@example.org'')),
      Emit (BroadcastFrom 8) (UserOnline u1 (js ''alice'')),
      Emit (ToSocket 7) (AuthenticationError ''Invalid token'')]"
  "clock s_half = 100"
  by (simp_all add: s_half_def run_simps save_fails_def alice_def)

section \<open>Eviction\<close>

text \<open>
  Claim C7, as amended. The disconnect handler evicts by user identifier, not by
  connection handle. When the disconnecting socket has a \<^verbatim>\<open>userId\<close> and neither
  \<^verbatim>\<open>User.findById\<close> nor \<^verbatim>\<open>user.save()\<close> rejects, the registry entry stored under
  that user identifier is deleted, whichever connection handle it holds; afterwards the
  user has no entry; the deletion changes nothing when the user had no entry. The
  registry is keyed by user identifier: if it holds at most one entry per user, it still
  does after a disconnect and after any handshake.
\<close>

theorem disconnect_evicts_by_user_id:
  assumes "map_of (sockets s) c = Some sock" and "userId sock = Some uid" and "uid \<noteq> []"
      and "dc_find_ok io" and "map_of (users s) uid \<noteq> None \<longrightarrow> dc_save_ok io"
  shows "connectedUsers (disconnect io c s) = AList.delete uid (connectedUsers s)
       \<and> map_of (connectedUsers (disconnect io c s)) uid = None
       \<and> (map_of (connectedUsers s) uid = None \<longrightarrow>
            connectedUsers (disconnect io c s) = connectedUsers s)
       \<and> (distinct (map fst (connectedUsers s)) \<longrightarrow>
            distinct (map fst (connectedUsers (disconnect io c s)))
            \<and> distinct (map fst (connectedUsers (authenticate jv aio c' token s))))"
proof -
  have del: "connectedUsers (disconnect io c s) = AList.delete uid (connectedUsers s)"
  proof (cases "map_of (users s) uid")
    case None
    then show ?thesis using disconnect_unknown_user [OF assms(1-4)] by simp
  next
    case (Some u)
    then show ?thesis using disconnect_offline [OF assms(1-4) Some] assms(5) by simp
  qed
  show ?thesis
    using del authenticate_keys_distinct [of s jv aio c' token]
    by (simp add: delete_absent distinct_delete AList.delete_conv')
qed

theorem disconnect_evicts_by_user_id_witness:
  "map_of (sockets s_twice) 7 =
     Some \<lparr>userId = Some u1, sock_username = Some (js ''alice''), rooms = [JStr u1]\<rparr>
   \<and> u1 \<noteq> [] \<and> dc_find_ok disc_ok \<and> dc_save_ok disc_ok
   \<and> distinct (map fst (connectedUsers s_twice))
   \<and> connectedUsers (disconnect disc_ok 7 s_twice) = AList.delete u1 (connectedUsers s_twice)
   \<and> map_of (connectedUsers (disconnect disc_ok 7 s_twice)) u1 = None
   \<and> distinct (map fst (connectedUsers (disconnect disc_ok 7 s_twice)))
   \<and> distinct (map fst (connectedUsers
        (authenticate jv0 auth_ok 8 (JStr (js ''tok:u2'')) s_twice)))"
  using disconnect_evicts_by_user_id [of s_twice 7
      "\<lparr>userId = Some u1, sock_username = Some (js ''alice''), rooms = [JStr u1]\<rparr>"
      u1 disc_ok jv0 auth_ok 8 "JStr (js ''tok:u2'')"]
  by (simp add: s_twice_fields ids_nonempty disc_ok_def)

text \<open>
  The claim as stated fails. Sockets 7 and 8 have authenticated as \<open>u1\<close>, so the entry of
  \<open>u1\<close> holds the handle 8. Evicting the entry whose handle matches the disconnecting
  socket 7 would leave the registry as it is; the handler empties it.
\<close>

theorem eviction_by_handle_counterexample:
  "map_of (sockets s_twice) 7 =
     Some \<lparr>userId = Some u1, sock_username = Some (js ''alice''), rooms = [JStr u1]\<rparr>
   \<and> connectedUsers s_twice = [(u1, \<lparr>socketId = 8, entry_username = js ''alice''\<rparr>)]
   \<and> spec_evict 7 (connectedUsers s_twice) =
       [(u1, \<lparr>socketId = 8, entry_username = js ''alice''\<rparr>)]
   \<and> connectedUsers (disconnect disc_ok 7 s_twice) = []"
  by (simp add: s_twice_fields spec_evict_def disconnect_def evict_and_broadcast_def Let_def
        disc_ok_def ids_nonempty)

section \<open>Disconnect after a failed handshake\<close>

text \<open>
  Claim C10 says that the disconnect of a connection that never completed a successful
  handshake changes nothing observable. The handler sets \<^verbatim>\<open>socket.userId\<close> (line 365)
  before \<^verbatim>\<open>user.save()\<close> (line 374) and does not reset it when the save rejects. In
  the state \<open>s_half\<close> socket 7 has only ever been answered \<open>authentication-error\<close>, and
  \<open>u1\<close> is online through socket 8. The disconnect of socket 7 then writes \<open>u1\<close>
  offline to the store, deletes the registry entry of \<open>u1\<close> (which holds socket 8) and
  broadcasts \<open>user-offline\<close>.
\<close>

theorem disconnect_after_failed_handshake:
  "trace s_half =
     [UserSaved u1 (alice\<lparr>isOnline := True, lastSeen := 100\<rparr>),
      Emit (ToSocket 8) (Authenticated u1 (js ''alice'') (js ''alice@example.org'')),
      Emit (BroadcastFrom 8) (UserOnline u1 (js ''alice'')),
      Emit (ToSocket 7) (AuthenticationError ''Invalid token'')]
   \<and> connectedUsers s_half = [(u1, \<lparr>socketId = 8, entry_username = js ''alice''\<rparr>)]
   \<and> connectedUsers (disconnect disc_ok 7 s_half) = []
   \<and> users (disconnect disc_ok 7 s_half) =
       [(u1, alice\<lparr>isOnline := False, lastSeen := 100\<rparr>), (u2, bob)]
   \<and> trace (disconnect disc_ok 7 s_half) =
       trace s_half @ [UserSaved u1 (alice\<lparr>isOnline := False, lastSeen := 100\<rparr>),
                       Emit (BroadcastFrom 7) (UserOffline u1 (Some (js ''alice'')))]"
  by (simp add: s_half_fields disconnect_def evict_and_broadcast_def Let_def
        disc_ok_def ids_nonempty emit_def alice_def)

section \<open>The shutdown sweep\<close>

lemma process_ends_fields [simp]:
  "users (process_ends code s) = users s" "messages (process_ends code s) = messages s"
  "clock (process_ends code s) = clock s" "exited (process_ends code s) = True"
  "trace (process_ends code s) = trace s @ [ProcessExit code]"
  "connectedUsers (process_ends code s) = []" "sockets (process_ends code s) = []"
  by (simp_all add: process_ends_def)

lemma findByIdAndUpdate_offline_frame [simp]:
  "clock (findByIdAndUpdate_offline uid s) = clock s"
  "connectedUsers (findByIdAndUpdate_offline uid s) = connectedUsers s"
  "messages (findByIdAndUpdate_offline uid s) = messages s"
  "sockets (findByIdAndUpdate_offline uid s) = sockets s"
  "exited (findByIdAndUpdate_offline uid s) = exited s"
  by (simp_all add: findByIdAndUpdate_offline_def split: option.split)

lemma findByIdAndUpdate_offline_users:
  "map_of (users (findByIdAndUpdate_offline uid s)) =
     (map_of (users s))(uid := map_option (offline_at (clock s)) (map_of (users s) uid))"
  by (auto simp add: findByIdAndUpdate_offline_def offline_at_def update_conv'
        split: option.split)

lemma findByIdAndUpdate_offline_trace:
  "trace (findByIdAndUpdate_offline uid s) =
     trace s @ (if map_of (users s) uid \<noteq> None then [PresenceUpdated uid False (clock s)] else [])"
  by (simp add: findByIdAndUpdate_offline_def split: option.split)

lemma offline_at_idem [simp]: "offline_at t (offline_at t u) = offline_at t u"
  by (simp add: offline_at_def)

lemma sweep_frame [simp]:
  "clock (sweep ok uids s) = clock s"
  "connectedUsers (sweep ok uids s) = connectedUsers s"
  "messages (sweep ok uids s) = messages s"
  "sockets (sweep ok uids s) = sockets s"
  "exited (sweep ok uids s) = exited s"
  by (induction uids arbitrary: s; simp)+

lemma sweep_users:
  "map_of (users (sweep ok uids s)) uid =
     (if uid \<in> set uids \<and> ok uid
      then map_option (offline_at (clock s)) (map_of (users s) uid)
      else map_of (users s) uid)"
proof (induction uids arbitrary: s)
  case Nil
  then show ?case by simp
next
  case (Cons a uids)
  show ?case
  proof (cases "ok a")
    case False
    then show ?thesis using Cons.IH [of s] by auto
  next
    case True
    then show ?thesis
      using Cons.IH [of "findByIdAndUpdate_offline a s"]
      by (auto simp add: findByIdAndUpdate_offline_users option.map_comp comp_def)
  qed
qed

lemma sweep_trace:
  "trace (sweep ok uids s) =
     trace s @ map (\<lambda>uid. PresenceUpdated uid False (clock s))
                 (filter (\<lambda>uid. ok uid \<and> map_of (users s) uid \<noteq> None) uids)"
proof (induction uids arbitrary: s)
  case Nil
  then show ?case by simp
next
  case (Cons a uids)
  have dom: "\<And>uid. (map_of (users (findByIdAndUpdate_offline a s)) uid \<noteq> None)
                    = (map_of (users s) uid \<noteq> None)"
    by (simp add: findByIdAndUpdate_offline_users)
  have flt: "filter (\<lambda>uid. ok uid \<and> map_of (users (findByIdAndUpdate_offline a s)) uid \<noteq> None) uids
           = filter (\<lambda>uid. ok uid \<and> map_of (users s) uid \<noteq> None) uids"
    by (simp only: dom)
  show ?case
  proof (cases "ok a")
    case False
    then show ?thesis using Cons.IH [of s] by simp
  next
    case True
    then show ?thesis
      using Cons.IH [of "findByIdAndUpdate_offline a s"] flt
      by (simp add: findByIdAndUpdate_offline_trace)
  qed
qed

lemma s_ab_trace:
  "trace s_ab =
     [UserSaved u1 (alice\<lparr>isOnline := True, lastSeen := 100\<rparr>),
      Emit (ToSocket 7) (Authenticated u1 (js ''alice'') (js ''alice@example.org'')),
      Emit (BroadcastFrom 7) (UserOnline u1 (js ''alice'')),
      UserSaved u2 (bob\<lparr>isOnline := True, lastSeen := 100\<rparr>),
      Emit (ToSocket 8) (Authenticated u2 (js ''bob'') (js ''bob@example.org'')),
      Emit (BroadcastFrom 8) (UserOnline u2 (js ''bob''))]"
  by (simp add: s_ab_def run_simps alice_def bob_def)


text \<open>
  Claim C8, as amended. On SIGINT, every user who has an entry in the connection
  registry at that moment and whose update the store does not reject is stored with
  \<open>isOnline = false\<close> and \<open>lastSeen\<close> set to the time of the sweep (a registry key
  without a stored user stays without one). This does not depend on the outcome of the
  updates of the other users: a rejected update is skipped and the loop goes on. All
  presence updates come before the process exits, which it does with code 0 once the
  database connection is closed, and with code 1 when closing it is rejected.
\<close>

theorem sigint_sets_registered_users_offline:
  assumes "uid \<in> set (map fst (connectedUsers s))" and "sg_update_ok io uid"
  shows "map_of (users (sigint io s)) uid =
           map_option (offline_at (clock s)) (map_of (users s) uid)
       \<and> trace (sigint io s) =
           trace s
           @ map (\<lambda>uid. PresenceUpdated uid False (clock s))
               (filter (\<lambda>uid. sg_update_ok io uid \<and> map_of (users s) uid \<noteq> None)
                  (map fst (connectedUsers s)))
           @ (if sg_close_ok io then [DbClosed, ProcessExit 0] else [ProcessExit 1])
       \<and> exited (sigint io s)"
  using assms
  by (simp add: sigint_def Let_def sweep_users sweep_trace)

text \<open>
  The instances: \<open>u1\<close> and \<open>u2\<close> are online when SIGINT arrives. With a store that
  accepts every update both end up offline before the exit; with a store that rejects
  the update of \<open>u1\<close>, \<open>u2\<close> still ends up offline before the exit; when closing the
  connection is rejected, both are offline before the exit with code 1.
\<close>

theorem sigint_sets_registered_users_offline_witness:
  "u1 \<in> set (map fst (connectedUsers s_ab)) \<and> sg_update_ok sweep_all_ok u1
   \<and> u2 \<in> set (map fst (connectedUsers s_ab)) \<and> sg_update_ok sweep_all_ok u2
   \<and> map_of (users (sigint sweep_all_ok s_ab)) u1 =
       Some (alice\<lparr>isOnline := False, lastSeen := 100\<rparr>)
   \<and> map_of (users (sigint sweep_all_ok s_ab)) u2 =
       Some (bob\<lparr>isOnline := False, lastSeen := 100\<rparr>)
   \<and> trace (sigint sweep_all_ok s_ab) =
       trace s_ab @ [PresenceUpdated u1 False 100, PresenceUpdated u2 False 100,
                     DbClosed, ProcessExit 0]
   \<and> exited (sigint sweep_all_ok s_ab)
   \<and> \<not> sg_update_ok sweep_u1_fails u1 \<and> sg_update_ok sweep_u1_fails u2
   \<and> map_of (users (sigint sweep_u1_fails s_ab)) u2 =
       Some (bob\<lparr>isOnline := False, lastSeen := 100\<rparr>)
   \<and> trace (sigint sweep_u1_fails s_ab) =
       trace s_ab @ [PresenceUpdated u2 False 100, DbClosed, ProcessExit 0]
   \<and> sg_update_ok sweep_close_fails u1
   \<and> map_of (users (sigint sweep_close_fails s_ab)) u1 =
       Some (alice\<lparr>isOnline := False, lastSeen := 100\<rparr>)
   \<and> trace (sigint sweep_close_fails s_ab) =
       trace s_ab @ [PresenceUpdated u1 False 100, PresenceUpdated u2 False 100,
                     ProcessExit 1]
   \<and> exited (sigint sweep_close_fails s_ab)"
  using sigint_sets_registered_users_offline [of u1 s_ab sweep_all_ok]
    sigint_sets_registered_users_offline [of u2 s_ab sweep_all_ok]
    sigint_sets_registered_users_offline [of u2 s_ab sweep_u1_fails]
    sigint_sets_registered_users_offline [of u1 s_ab sweep_close_fails]
  by (simp add: s_ab_fields sweep_all_ok_def sweep_u1_fails_def sweep_close_fails_def
        u1_neq_u2 offline_at_def)

text \<open>
  The claim as stated, for any termination signal, fails: SIGINT is the only signal
  with a listener (line 521). On SIGTERM, with \<open>u1\<close> and \<open>u2\<close> in the registry, the
  process exits without a sweep and the store keeps both as online.
\<close>

theorem sigterm_without_sweep_counterexample:
  "connectedUsers s_ab = [(u1, \<lparr>socketId = 7, entry_username = js ''alice''\<rparr>),
                          (u2, \<lparr>socketId = 8, entry_username = js ''bob''\<rparr>)]
   \<and> s_term = step lib0 Sigterm s_ab
   \<and> users s_term = [(u1, alice\<lparr>isOnline := True, lastSeen := 100\<rparr>),
                     (u2, bob\<lparr>isOnline := True, lastSeen := 100\<rparr>)]
   \<and> trace s_term = trace s_ab @ [ProcessExit 143]
   \<and> exited s_term"
  by (simp add: s_term_def step_def sigterm_def s_ab_fields)

section \<open>The presence invariant\<close>

lemma presence_inv_iff:
  "presence_inv s \<longleftrightarrow>
     (\<forall>uid u. map_of (users s) uid = Some u \<longrightarrow> isOnline u \<longrightarrow>
               map_of (connectedUsers s) uid \<noteq> None)"
proof
  assume inv: "presence_inv s"
  show "\<forall>uid u. map_of (users s) uid = Some u \<longrightarrow> isOnline u \<longrightarrow>
                 map_of (connectedUsers s) uid \<noteq> None"
  proof (intro allI impI)
    fix uid u
    assume u: "map_of (users s) uid = Some u" and on: "isOnline u"
    from u have "uid \<in> set (map fst (users s))"
      by (metis map_of_eq_None_iff option.distinct(1) set_map)
    with inv u on show "map_of (connectedUsers s) uid \<noteq> None"
      by (auto simp add: presence_inv_def list_all_iff)
  qed
next
  assume "\<forall>uid u. map_of (users s) uid = Some u \<longrightarrow> isOnline u \<longrightarrow>
                 map_of (connectedUsers s) uid \<noteq> None"
  then show "presence_inv s"
    by (auto simp add: presence_inv_def list_all_iff split: option.split)
qed


lemma presence_inv_updates [simp]:
  "presence_inv (s\<lparr>sockets := a\<rparr>) = presence_inv s"
  "presence_inv (s\<lparr>trace := b\<rparr>) = presence_inv s"
  "presence_inv (s\<lparr>clock := t\<rparr>) = presence_inv s"
  "presence_inv (s\<lparr>messages := ms\<rparr>) = presence_inv s"
  "presence_inv (s\<lparr>exited := x\<rparr>) = presence_inv s"
  "presence_inv (emit tg ev s) = presence_inv s"
  by (simp_all add: presence_inv_iff)

lemma send_failed_fields [simp]:
  "users (send_failed c s) = users s" "connectedUsers (send_failed c s) = connectedUsers s"
  by (simp_all add: send_failed_def)




















text \<open>
  The state in which a handshake waits for \<^verbatim>\<open>user.save()\<close> is a state of the real
  handler: resumed from it, the handler ends as \<open>authenticate\<close> does.
\<close>

lemma authenticate_resumes:
  assumes "authenticate_saved jv io c token s = Some s2"
  shows "\<exists>decoded u. jv token = JwtOk decoded \<and> map_of (users s) decoded = Some u
           \<and> authenticate jv io c token s = authenticate_resumed c decoded u s2"
proof (cases "map_of (sockets s) c")
  case None
  then show ?thesis using assms by (simp add: authenticate_saved_def)
next
  case sock: (Some sock)
  show ?thesis
  proof (cases "jv token")
    case JwtExpired
    then show ?thesis using assms sock by (simp add: authenticate_saved_def)
  next
    case JwtMalformed
    then show ?thesis using assms sock by (simp add: authenticate_saved_def)
  next
    case ok: (JwtOk decoded)
    show ?thesis
    proof (cases "map_of (users s) decoded")
      case None
      then show ?thesis
        using assms sock ok by (simp add: authenticate_saved_def split: if_splits)
    next
      case (Some u)
      have io: "au_find_ok io" "au_save_ok io"
        using assms sock ok by (auto simp add: authenticate_saved_def split: if_splits)
      have "authenticate jv io c token s = authenticate_resumed c decoded u s2"
        using assms sock ok Some io
          authenticate_admitted [where jwt_verify = jv and token = token and s = s]
        by (auto simp add: authenticate_saved_def authenticate_resumed_def Let_def emit_def)
      then show ?thesis using ok Some by blast
    qed
  qed
qed





end
